theory Spec2Isabelle
  imports
    Complex_Main
    "HOL-Library.Sublist"
    "HOL-Library.Multiset"
    "HOL-Library.Char_ord"
    "HOL-Library.List_Lexorder"
begin

section \<open>Support dashboard (app.py): data model\<close>

text \<open>
  The dashboard reads five tables from the warehouse and shapes them for display.
  Python strings are modelled as byte strings in UTF-8, so a character outside ASCII
  is several \<open>char\<close>s. A float column is a \<open>rat option\<close>: \<open>None\<close> is a SQL NULL, which
  the summary row holds as \<open>pd.NA\<close> and a series of a chart as a missing point.
  Arithmetic on the values is exact; the rounding error of binary floating point is
  outside this model. A DATE is a day number.
\<close>

type_synonym date = int

text \<open>The single row returned by \<open>load_current_stats\<close> (app.py, lines 289 to 305).\<close>

record stats =
  total_tickets :: int
  backlog :: int
  avg_resolution_hours :: "rat option"
  same_day_pct :: "rat option"
  csat_rate :: "rat option"
  today_tickets :: int
  yesterday_tickets :: int
  fast_response_pct :: "rat option"

text \<open>The columns of \<open>dim_daily_metrics\<close> that the dashboard reads.\<close>

record daily_metric_row =
  created_date :: date
  ticket_count :: int
  daily_csat_rate :: "rat option"

text \<open>The columns of \<open>dim_agent_performance\<close> that the dashboard reads; none of them
  is taken to be NULL.\<close>

record agent_row =
  agent_name :: string
  created_month :: date
  tickets_handled :: int
  agent_csat_rate :: rat

text \<open>The result columns of \<open>load_tag_analysis\<close>.\<close>

record tag_row =
  tag :: string
  tag_total_tickets :: int
  avg_resolution :: "rat option"
  avg_csat :: "rat option"

text \<open>The result columns of \<open>load_hourly_heatmap\<close>.\<close>

record heatmap_row =
  created_day_of_week :: string
  created_hour :: int
  heat_ticket_count :: int

section \<open>Number formatting\<close>

definition digit_char :: "nat \<Rightarrow> char" where
  "digit_char d = ''0123456789'' ! d"

fun string_of_nat :: "nat \<Rightarrow> string" where
  "string_of_nat n =
     (if n < 10 then [digit_char n]
      else string_of_nat (n div 10) @ [digit_char (n mod 10)])"

declare string_of_nat.simps [simp del]

definition string_of_int :: "int \<Rightarrow> string" where
  "string_of_int i = (if i < 0 then ''-'' @ string_of_nat (nat (- i)) else string_of_nat (nat i))"

text \<open>Rounding to the nearest integer, a tie going to the even neighbour, as Python's
  float formatting does.\<close>

definition round_half_even :: "rat \<Rightarrow> int" where
  "round_half_even x =
     (let f = \<lfloor>x\<rfloor>; d = x - of_int f
      in if d < 1 / 2 then f
         else if 1 / 2 < d then f + 1
         else if even f then f else f + 1)"

fun zero_pad :: "nat \<Rightarrow> string \<Rightarrow> string" where
  "zero_pad w s = replicate (w - length s) (CHR ''0'') @ s"

text \<open>Python's \<open>format(x, '.pf')\<close> for a number.\<close>

definition format_f :: "nat \<Rightarrow> rat \<Rightarrow> string" where
  "format_f p x =
     (let n = nat (round_half_even (\<bar>x\<bar> * 10 ^ p));
          sign = (if x < 0 then ''-'' else '''')
      in sign @ string_of_nat (n div 10 ^ p)
         @ (if p = 0 then '''' else ''.'' @ zero_pad p (string_of_nat (n mod 10 ^ p))))"

text \<open>The same for a value of the summary row: \<open>pd.NA\<close> ignores the format and prints
  as \<open><NA>\<close>.\<close>

definition format_float :: "nat \<Rightarrow> rat option \<Rightarrow> string" where
  "format_float p v = (case v of None \<Rightarrow> ''<NA>'' | Some x \<Rightarrow> format_f p x)"

text \<open>
  An exception that \<open>main\<close> does not catch. A comparison with \<open>pd.NA\<close> is \<open>pd.NA\<close>
  again, and taking its truth value in a conditional raises \<open>TypeError\<close>.
\<close>

datatype py_error = TypeError

definition py_gt :: "rat option \<Rightarrow> rat \<Rightarrow> bool option" where
  "py_gt v c = (case v of None \<Rightarrow> None | Some x \<Rightarrow> Some (c < x))"

definition truth :: "bool option \<Rightarrow> py_error + bool" where
  "truth b = (case b of None \<Rightarrow> Inl TypeError | Some t \<Rightarrow> Inr t)"

section \<open>KPI cards\<close>

definition up_arrow :: string where
  "up_arrow = [CHR 0xE2, CHR 0x86, CHR 0x91]"

definition down_arrow :: string where
  "down_arrow = [CHR 0xE2, CHR 0x86, CHR 0x93]"

text \<open>\<open>if delta:\<close> holds for a string that is neither \<open>None\<close> nor empty.\<close>

definition delta_html :: "string option \<Rightarrow> string \<Rightarrow> string" where
  \<open>delta_html delta delta_type =
     (case delta of
        None \<Rightarrow> ''''
      | Some d \<Rightarrow>
          if d = '''' then ''''
          else (let delta_class = (if delta_type = ''positive'' then ''metric-delta-positive''
                                   else ''metric-delta-negative'');
                    delta_symbol = (if delta_type = ''positive'' then up_arrow else down_arrow)
                in ''<div class="'' @ delta_class @ ''">'' @ delta_symbol @ '' '' @ d @ ''</div>''))\<close>

definition render_metric_card :: "string \<Rightarrow> string \<Rightarrow> string option \<Rightarrow> string \<Rightarrow> string" where
  \<open>render_metric_card val label delta delta_type =
     ''\<newline>    <div class="metric-card">\<newline>        <div class="metric-value">'' @ val
     @ ''</div>\<newline>        <div class="metric-label">'' @ label
     @ ''</div>\<newline>        '' @ delta_html delta delta_type
     @ ''\<newline>    </div>\<newline>    ''\<close>

text \<open>The five cards of \<open>main\<close> (lines 389 to 425), one definition for each column.\<close>

text \<open>The arguments of the first card are evaluated from left to right; each of the
  two conditionals takes the truth value of \<open>stats['csat_rate'] > 65\<close>.\<close>

definition csat_card :: "stats \<Rightarrow> py_error + string" where
  "csat_card s =
     (let val = format_float 0 (csat_rate s) @ ''%''
      in case truth (py_gt (csat_rate s) 65) of
           Inl e \<Rightarrow> Inl e
         | Inr shown \<Rightarrow>
        (case truth (py_gt (csat_rate s) 65) of
           Inl e \<Rightarrow> Inl e
         | Inr good \<Rightarrow>
             Inr (render_metric_card val ''CSAT Score''
                    (if shown then Some ''2.3% vs last week'' else None)
                    (if good then ''positive'' else ''negative''))))"

definition backlog_card :: "stats \<Rightarrow> string" where
  "backlog_card s =
     (let backlog_status = (if backlog s < 150 then ''positive'' else ''negative'')
      in render_metric_card (format_f 0 (of_int (backlog s))) ''Open Backlog'' None backlog_status)"

definition resolution_card :: "stats \<Rightarrow> string" where
  "resolution_card s =
     render_metric_card (format_float 1 (avg_resolution_hours s) @ ''h'') ''Avg Resolution''
       None ''positive''"

definition same_day_card :: "stats \<Rightarrow> string" where
  "same_day_card s =
     render_metric_card (format_float 0 (same_day_pct s) @ ''%'') ''Same-Day Resolution''
       None ''positive''"

definition today_delta :: "stats \<Rightarrow> int" where
  "today_delta s = today_tickets s - yesterday_tickets s"

definition delta_type :: "stats \<Rightarrow> string" where
  "delta_type s = (if 0 < today_delta s then ''negative'' else ''positive'')"

definition today_card :: "stats \<Rightarrow> string" where
  "today_card s =
     render_metric_card (format_f 0 (of_int (today_tickets s))) (''Today'' @ [CHR 0x27] @ ''s Tickets'')
       (Some (format_f 0 (of_int \<bar>today_delta s\<bar>) @ '' vs yesterday''))
       (delta_type s)"

definition example_stats :: "rat option \<Rightarrow> int \<Rightarrow> int \<Rightarrow> stats" where
  "example_stats c t y =
     \<lparr>total_tickets = 1000, backlog = 140, avg_resolution_hours = Some (129 / 10),
      same_day_pct = Some (812 / 10), csat_rate = c, today_tickets = t,
      yesterday_tickets = y, fast_response_pct = Some 50\<rparr>"

section \<open>The summary query of \<open>load_current_stats\<close>\<close>

text \<open>
  The SQL of lines 294 to 303 runs over the rows of \<open>fct_ticket_summary\<close>. A nullable
  column is an \<open>option\<close>; a boolean column that is NULL counts as false in \<open>COUNTIF\<close>,
  so the flags are plain booleans. \<open>created_at\<close> holds \<open>DATE(created_at)\<close>. A division
  by zero is an error of the warehouse, a division by NULL is NULL.
\<close>

record ticket =
  status :: string
  resolution_minutes_business :: "rat option"
  resolved_same_day :: bool
  is_resolved :: bool
  csat_score :: "string option"
  created_at :: date
  first_response_under_1hr :: bool

datatype sql_error = Division_by_zero

definition COUNTIF :: "('a \<Rightarrow> bool) \<Rightarrow> 'a list \<Rightarrow> int" where
  "COUNTIF p rows = int (length (filter p rows))"

definition NULLIF :: "int \<Rightarrow> int \<Rightarrow> int option" where
  "NULLIF a b = (if a = b then None else Some a)"

definition sql_div :: "rat \<Rightarrow> int option \<Rightarrow> sql_error + rat option" where
  "sql_div x d =
     (case d of
        None \<Rightarrow> Inr None
      | Some n \<Rightarrow> if n = 0 then Inl Division_by_zero else Inr (Some (x / of_int n)))"

text \<open>\<open>ROUND(x, 1)\<close>: one decimal place, a tie going away from zero; NULL stays NULL.\<close>

definition round1 :: "rat \<Rightarrow> rat" where
  "round1 x = sgn x * of_int \<lfloor>\<bar>x\<bar> * 10 + 1 / 2\<rfloor> / 10"

definition ROUND1 :: "rat option \<Rightarrow> rat option" where
  "ROUND1 v = map_option round1 v"

text \<open>\<open>AVG\<close> skips NULL and is NULL when nothing is left.\<close>

definition AVG :: "rat option list \<Rightarrow> rat option" where
  "AVG vs =
     (let xs = List.map_filter id vs
      in if xs = [] then None else Some (sum_list xs / of_nat (length xs)))"

definition current_stats_query :: "date \<Rightarrow> ticket list \<Rightarrow> sql_error + stats" where
  "current_stats_query current_date rows =
     (case sql_div (100 * of_int (COUNTIF resolved_same_day rows))
             (NULLIF (COUNTIF is_resolved rows) 0) of
        Inl e \<Rightarrow> Inl e
      | Inr same_day \<Rightarrow>
     (case sql_div (100 * of_int (COUNTIF (\<lambda>r. csat_score r = Some ''good'') rows))
             (NULLIF (COUNTIF (\<lambda>r. csat_score r \<in> {Some ''good'', Some ''bad''}) rows) 0) of
        Inl e \<Rightarrow> Inl e
      | Inr csat \<Rightarrow>
     (case sql_div (100 * of_int (COUNTIF first_response_under_1hr rows))
             (NULLIF (int (length rows)) 0) of
        Inl e \<Rightarrow> Inl e
      | Inr fast \<Rightarrow>
          Inr \<lparr>total_tickets = int (length rows),
               backlog = COUNTIF (\<lambda>r. status r \<in> {''open'', ''pending'', ''new''}) rows,
               avg_resolution_hours =
                 ROUND1 (map_option (\<lambda>m. m / 60) (AVG (map resolution_minutes_business rows))),
               same_day_pct = ROUND1 same_day,
               csat_rate = ROUND1 csat,
               today_tickets = COUNTIF (\<lambda>r. created_at r = current_date) rows,
               yesterday_tickets = COUNTIF (\<lambda>r. created_at r = current_date - 1) rows,
               fast_response_pct = ROUND1 fast\<rparr>)))"

definition rated_ticket :: "string option \<Rightarrow> ticket" where
  "rated_ticket score =
     \<lparr>status = ''solved'', resolution_minutes_business = Some 90, resolved_same_day = True,
      is_resolved = True, csat_score = score, created_at = 0,
      first_response_under_1hr = True\<rparr>"

section \<open>The result cache\<close>

text \<open>
  Modelled from the spec: \<open>st.cache_data\<close>, the decorator on the five loaders (lines 263,
  276, 289, 308, 327), is Streamlit's and not part of app.py. The model follows the
  contract "cached(key, ttl_seconds, producer)": a live entry (age below the TTL) is
  returned without invoking the producer; otherwise the producer is invoked and its
  result stored with the current time. \<open>fetches\<close> counts the producer's invocations
  for each key. The loaders take no arguments, so the key is the loader itself.
\<close>

datatype loader =
    Load_daily_metrics
  | Load_agent_performance
  | Load_current_stats
  | Load_tag_analysis
  | Load_hourly_heatmap

text \<open>The \<open>ttl=300\<close> of each decorator.\<close>

fun ttl :: "loader \<Rightarrow> int" where
  "ttl Load_daily_metrics = 300"
| "ttl Load_agent_performance = 300"
| "ttl Load_current_stats = 300"
| "ttl Load_tag_analysis = 300"
| "ttl Load_hourly_heatmap = 300"

definition cached_loaders :: "loader list" where
  "cached_loaders =
     [Load_daily_metrics, Load_agent_performance, Load_current_stats, Load_tag_analysis,
      Load_hourly_heatmap]"

record 'v cache =
  entries :: "loader \<rightharpoonup> (int \<times> 'v)"
  fetches :: "loader \<Rightarrow> nat"

definition cache_fill :: "loader \<Rightarrow> (int \<Rightarrow> 'v) \<Rightarrow> int \<Rightarrow> 'v cache \<Rightarrow> 'v \<times> 'v cache" where
  "cache_fill key producer now c =
     (let v = producer now
      in (v, c\<lparr>entries := (entries c)(key \<mapsto> (now, v)),
               fetches := (fetches c)(key := Suc (fetches c key))\<rparr>))"

definition cached :: "loader \<Rightarrow> int \<Rightarrow> (int \<Rightarrow> 'v) \<Rightarrow> int \<Rightarrow> 'v cache \<Rightarrow> 'v \<times> 'v cache" where
  "cached key ttl_seconds producer now c =
     (case entries c key of
        None \<Rightarrow> cache_fill key producer now c
      | Some (stored_at, v) \<Rightarrow>
          if now - stored_at < ttl_seconds then (v, c) else cache_fill key producer now c)"

text \<open>A decorated loader: \<open>warehouse key now\<close> is what the query of \<open>key\<close> returns at
  time \<open>now\<close>.\<close>

definition load :: "(loader \<Rightarrow> int \<Rightarrow> 'v) \<Rightarrow> loader \<Rightarrow> int \<Rightarrow> 'v cache \<Rightarrow> 'v \<times> 'v cache" where
  "load warehouse key now c = cached key (ttl key) (warehouse key) now c"

definition empty_cache :: "'v cache" where
  "empty_cache = \<lparr>entries = Map.empty, fetches = (\<lambda>_. 0)\<rparr>"

section \<open>Reshaping\<close>

subsection \<open>Ticket volume trend\<close>

text \<open>
  \<open>daily_df.sort_values('created_date')\<close>, ascending. The daily table has one row for
  each date, so the order of equal keys does not arise; the model keeps it.
\<close>

definition sort_values_created_date :: "daily_metric_row list \<Rightarrow> daily_metric_row list" where
  "sort_values_created_date df = sort_key created_date df"

text \<open>
  \<open>Series.rolling(w).mean()\<close>: \<open>min_periods\<close> defaults to the window, so a position with
  fewer than \<open>w\<close> samples behind it is NaN; the others hold the mean of the last \<open>w\<close>
  values.
\<close>

definition rolling_mean :: "nat \<Rightarrow> int list \<Rightarrow> rat option list" where
  "rolling_mean w xs =
     map (\<lambda>i. if i + 1 < w then None
              else Some (of_int (sum_list (take w (drop (i + 1 - w) xs))) / of_nat w))
       [0..<length xs]"

definition ma7 :: "daily_metric_row list \<Rightarrow> rat option list" where
  "ma7 daily_df = rolling_mean 7 (map ticket_count (sort_values_created_date daily_df))"

definition csat_rate_pct :: "daily_metric_row list \<Rightarrow> rat option list" where
  "csat_rate_pct daily_df =
     map (\<lambda>r. map_option (\<lambda>c. c * 100) (daily_csat_rate r)) (sort_values_created_date daily_df)"

definition example_daily :: "daily_metric_row list" where
  "example_daily =
     map (\<lambda>(d, n). \<lparr>created_date = d, ticket_count = n, daily_csat_rate = Some (7 / 10)\<rparr>)
       [(7, 14), (6, 12), (5, 10), (4, 8), (3, 6), (2, 4), (1, 2)]"

subsection \<open>Heatmap pivot\<close>

definition day_order :: "string list" where
  "day_order =
     [''Monday'', ''Tuesday'', ''Wednesday'', ''Thursday'', ''Friday'', ''Saturday'', ''Sunday'']"

record pivot =
  p_index :: "string list"
  p_columns :: "int list"
  p_values :: "int option list list"

text \<open>One cell of the pivot: the sum over the rows of its day and hour, NaN without rows.\<close>

definition pivot_cell :: "heatmap_row list \<Rightarrow> string \<Rightarrow> int \<Rightarrow> int option" where
  "pivot_cell rows d h =
     (let group = filter (\<lambda>r. created_day_of_week r = d \<and> created_hour r = h) rows
      in if group = [] then None else Some (sum_list (map heat_ticket_count group)))"

text \<open>
  \<open>pivot_table(index='created_day_of_week', columns='created_hour',
  values='ticket_count', aggfunc='sum')\<close>: the index holds the days present and the
  columns the hours present, each sorted and without duplicates.
\<close>

definition pivot_table :: "heatmap_row list \<Rightarrow> pivot" where
  "pivot_table rows =
     (let idx = sort (remdups (map created_day_of_week rows));
          cols = sort (remdups (map created_hour rows))
      in \<lparr>p_index = idx, p_columns = cols,
          p_values = map (\<lambda>d. map (pivot_cell rows d) cols) idx\<rparr>)"

text \<open>\<open>reindex(labels)\<close>: the rows in the order of \<open>labels\<close>; a label that the index
  lacks gets a row of NaN, and an index entry outside \<open>labels\<close> is dropped.\<close>

definition reindex :: "string list \<Rightarrow> pivot \<Rightarrow> pivot" where
  "reindex labels p =
     \<lparr>p_index = labels, p_columns = p_columns p,
      p_values =
        map (\<lambda>d. case map_of (zip (p_index p) (p_values p)) d of
                   Some row \<Rightarrow> row
                 | None \<Rightarrow> replicate (length (p_columns p)) None)
          labels\<rparr>"

definition heatmap_pivot :: "heatmap_row list \<Rightarrow> pivot" where
  "heatmap_pivot heatmap_df = reindex day_order (pivot_table heatmap_df)"

definition hour_labels :: "pivot \<Rightarrow> string list" where
  "hour_labels p = map (\<lambda>h. string_of_int h @ '':00'') (p_columns p)"

definition example_heatmap :: "heatmap_row list" where
  "example_heatmap =
     [\<lparr>created_day_of_week = ''Monday'', created_hour = 9, heat_ticket_count = 5\<rparr>,
      \<lparr>created_day_of_week = ''Monday'', created_hour = 9, heat_ticket_count = 3\<rparr>]"

subsection \<open>Leaderboards\<close>

text \<open>\<open>agent_df['created_month'].max()\<close>, NaN on an empty table.\<close>

definition max_created_month :: "agent_row list \<Rightarrow> date option" where
  "max_created_month agent_df =
     (case agent_df of
        [] \<Rightarrow> None
      | r # rs \<Rightarrow> Some (fold max (map created_month rs) (created_month r)))"

definition current_month :: "agent_row list \<Rightarrow> agent_row list" where
  "current_month agent_df =
     filter (\<lambda>r. Some (created_month r) = max_created_month agent_df) agent_df"

text \<open>
  \<open>DataFrame.nlargest(n, column)\<close> with its default \<open>keep='first'\<close>: the first \<open>n\<close> rows
  of the table sorted by the column in descending order, rows with equal values
  staying in the order of the table.
\<close>

definition nlargest :: "nat \<Rightarrow> ('a \<Rightarrow> 'k::linordered_ab_group_add) \<Rightarrow> 'a list \<Rightarrow> 'a list" where
  "nlargest n column df = take n (sort_key (\<lambda>r. - column r) df)"

definition top_agents :: "agent_row list \<Rightarrow> agent_row list" where
  "top_agents agent_df = nlargest 10 tickets_handled (current_month agent_df)"

definition top_csat :: "agent_row list \<Rightarrow> agent_row list" where
  "top_csat agent_df =
     nlargest 5 agent_csat_rate (filter (\<lambda>r. 10 \<le> tickets_handled r) (current_month agent_df))"

definition agent :: "string \<Rightarrow> date \<Rightarrow> int \<Rightarrow> rat \<Rightarrow> agent_row" where
  "agent n m t c = \<lparr>agent_name = n, created_month = m, tickets_handled = t, agent_csat_rate = c\<rparr>"

text \<open>Eleven agents of month 2, the last two tied at 12 tickets, and one of month 1.\<close>

definition example_agents :: "agent_row list" where
  "example_agents =
     [agent ''Ann'' 2 90 (8 / 10), agent ''Bob'' 2 80 (9 / 10), agent ''Cid'' 2 70 (7 / 10),
      agent ''Dee'' 2 60 (6 / 10), agent ''Eve'' 2 50 (95 / 100), agent ''Fay'' 2 40 (5 / 10),
      agent ''Gus'' 2 30 (85 / 100), agent ''Hal'' 2 20 (4 / 10), agent ''Ida'' 2 15 (3 / 10),
      agent ''Zed'' 2 12 (2 / 10), agent ''Amy'' 2 12 (1 / 10), agent ''Old'' 1 500 1]"

text \<open>A month in which nobody reaches ten tickets.\<close>

definition quiet_month :: "agent_row list" where
  "quiet_month = [agent ''Ann'' 2 9 (8 / 10), agent ''Bob'' 2 3 (9 / 10)]"

section \<open>The render pass\<close>

text \<open>
  What \<open>main\<close> hands to Streamlit, in order: \<open>st.markdown\<close>, \<open>st.error\<close> and
  \<open>st.plotly_chart\<close>. A figure keeps the data series of its traces; colours, layout
  and the column grid are left out.
\<close>

datatype figure =
    Volume_trend "date list" "int list" "rat option list"
  | Csat_trend "date list" "rat option list"
  | Heatmap "int option list list" "string list" "string list"
  | Top_categories "int list" "string list"
  | Top_agents "string list" "int list"
  | Top_csat "rat list" "string list"

datatype widget =
    St_markdown string
  | St_error string
  | St_plotly_chart figure

fun is_error :: "widget \<Rightarrow> bool" where
  "is_error (St_error _) = True"
| "is_error _ = False"

fun is_chart :: "widget \<Rightarrow> bool" where
  "is_chart (St_plotly_chart _) = True"
| "is_chart _ = False"

fun is_top_categories :: "widget \<Rightarrow> bool" where
  "is_top_categories (St_plotly_chart (Top_categories _ _)) = True"
| "is_top_categories _ = False"

fun is_top_agents :: "widget \<Rightarrow> bool" where
  "is_top_agents (St_plotly_chart (Top_agents _ _)) = True"
| "is_top_agents _ = False"

fun is_top_csat :: "widget \<Rightarrow> bool" where
  "is_top_csat (St_plotly_chart (Top_csat _ _)) = True"
| "is_top_csat _ = False"

definition header_html :: string where
  \<open>header_html =
     ''\<newline>''
     @ ''    <div style="display: flex; justify-content: space-between; align-items: center; margin-bottom: 32px;">\<newline>''
     @ ''        <div>\<newline>''
     @ ''            <h1 class="dashboard-header">Support Command Center</h1>\<newline>''
     @ ''            <p class="dashboard-subtitle">B2C Customer Support Analytics ''
     @ [CHR 0xE2, CHR 0x80, CHR 0xA2]
     @ '' Real-time Insights</p>\<newline>''
     @ ''        </div>\<newline>''
     @ ''        <div class="live-indicator">\<newline>''
     @ ''            <span class="live-dot"></span>\<newline>''
     @ ''            Live Data\<newline>''
     @ ''        </div>\<newline>''
     @ ''    </div>\<newline>''
     @ ''    ''\<close>

text \<open>\<open>now\<close> is \<open>datetime.now().strftime('%Y-%m-%d %H:%M:%S')\<close>.\<close>

definition footer_html :: "string \<Rightarrow> string" where
  \<open>footer_html now =
     ''\<newline>''
     @ ''    <div style="text-align: center; color: #8892b0; margin-top: 48px; padding: 24px; border-top: 1px solid rgba(255,255,255,0.1);">\<newline>''
     @ ''        <p style="margin: 0;">Last updated: '' @ now @ '' UTC</p>\<newline>''
     @ ''        <p style="margin: 4px 0 0 0; font-size: 12px;">Data refreshes every 5 minutes ''
     @ [CHR 0xE2, CHR 0x80, CHR 0xA2]
     @ '' Built with ''
     @ [CHR 0xF0, CHR 0x9F, CHR 0x92, CHR 0x9C]
     @ '' by BigQuery Agent</p>\<newline>''
     @ ''    </div>\<newline>''
     @ ''    ''\<close>

definition section_header :: "string \<Rightarrow> string \<Rightarrow> string" where
  \<open>section_header icon title = ''<p class="section-header">'' @ icon @ '' '' @ title @ ''</p>''\<close>

text \<open>The card row: the first card is the only one that can raise, and when it does
  no card has been emitted yet.\<close>

definition kpi_cards :: "stats \<Rightarrow> py_error + widget list" where
  "kpi_cards s =
     (case csat_card s of
        Inl e \<Rightarrow> Inl e
      | Inr html \<Rightarrow>
          Inr [St_markdown html, St_markdown (backlog_card s), St_markdown (resolution_card s),
               St_markdown (same_day_card s), St_markdown (today_card s)])"

definition volume_trend_chart :: "daily_metric_row list \<Rightarrow> widget list" where
  "volume_trend_chart daily_df =
     (let daily_df_sorted = sort_values_created_date daily_df
      in [St_markdown (section_header [CHR 0xF0, CHR 0x9F, CHR 0x93, CHR 0x88] ''Ticket Volume Trend''),
          St_plotly_chart
            (Volume_trend (map created_date daily_df_sorted) (map ticket_count daily_df_sorted)
               (ma7 daily_df))])"

definition csat_trend_chart :: "daily_metric_row list \<Rightarrow> widget list" where
  "csat_trend_chart daily_df =
     (let daily_df_sorted = sort_values_created_date daily_df
      in [St_markdown (section_header [CHR 0xF0, CHR 0x9F, CHR 0x8E, CHR 0xAF] ''CSAT Trend''),
          St_plotly_chart (Csat_trend (map created_date daily_df_sorted) (csat_rate_pct daily_df))])"

definition heatmap_chart :: "heatmap_row list \<Rightarrow> widget list" where
  "heatmap_chart heatmap_df =
     (let p = heatmap_pivot heatmap_df
      in [St_markdown (section_header [CHR 0xF0, CHR 0x9F, CHR 0x94, CHR 0xA5] ''Volume Heatmap''),
          St_plotly_chart (Heatmap (p_values p) (hour_labels p) (p_index p))])"

definition categories_chart :: "tag_row list \<Rightarrow> widget list" where
  "categories_chart tag_df =
     (let tag_df_top = take 8 tag_df
      in [St_markdown
            (section_header [CHR 0xF0, CHR 0x9F, CHR 0x8F, CHR 0xB7, CHR 0xEF, CHR 0xB8, CHR 0x8F]
               ''Top Issue Categories''),
          St_plotly_chart (Top_categories (map tag_total_tickets tag_df_top) (map tag tag_df_top))])"

definition agent_header :: string where
  "agent_header = section_header [CHR 0xF0, CHR 0x9F, CHR 0x91, CHR 0xA5] ''Agent Performance''"

text \<open>Lines 541 to 587: the two guards on emptiness.\<close>

definition agent_charts :: "agent_row list \<Rightarrow> widget list" where
  "agent_charts agent_df =
     (if current_month agent_df \<noteq> [] then
        St_plotly_chart
          (Top_agents (map agent_name (top_agents agent_df))
             (map tickets_handled (top_agents agent_df)))
        # (if top_csat agent_df \<noteq> [] then
             [St_plotly_chart
                (Top_csat (map (\<lambda>r. agent_csat_rate r * 100) (top_csat agent_df))
                   (map agent_name (top_csat agent_df)))]
           else [])
      else [])"

text \<open>
  The outcome of a pass is what it handed to Streamlit, in order, and the exception
  that ended it, if one did. \<open>dashboard\<close> is the part of \<open>main\<close> after the loads
  (lines 386 to 595), which no \<open>try\<close> encloses.
\<close>

definition dashboard ::
  "string \<Rightarrow> stats \<Rightarrow> daily_metric_row list \<Rightarrow> agent_row list \<Rightarrow> tag_row list
     \<Rightarrow> heatmap_row list \<Rightarrow> widget list \<times> py_error option" where
  \<open>dashboard now s daily_df agent_df tag_df heatmap_df =
     (case kpi_cards s of
        Inl e \<Rightarrow> ([], Some e)
      | Inr cards \<Rightarrow>
          (cards @ [St_markdown ''<br>'']
           @ volume_trend_chart daily_df @ csat_trend_chart daily_df
           @ heatmap_chart heatmap_df @ categories_chart tag_df
           @ [St_markdown agent_header] @ agent_charts agent_df
           @ [St_markdown (footer_html now)], None))\<close>

text \<open>
  \<open>main\<close>: each loader either returns its table or raises; \<open>Inl\<close> carries the text of
  the exception. The \<open>try\<close> block calls the loaders in the order of lines 377 to 381
  and the first exception is caught: it ends the pass with one \<open>st.error\<close> and a plain
  return.
\<close>

definition load_error :: "string \<Rightarrow> widget list" where
  "load_error e = [St_error (''Error loading data: '' @ e)]"

definition main ::
  "string \<Rightarrow> string + stats \<Rightarrow> string + daily_metric_row list \<Rightarrow> string + agent_row list
     \<Rightarrow> string + tag_row list \<Rightarrow> string + heatmap_row list
     \<Rightarrow> widget list \<times> py_error option" where
  "main now load_current_stats load_daily_metrics load_agent_performance load_tag_analysis
     load_hourly_heatmap =
     (case load_current_stats of
        Inl e \<Rightarrow> (St_markdown header_html # load_error e, None)
      | Inr s \<Rightarrow>
     (case load_daily_metrics of
        Inl e \<Rightarrow> (St_markdown header_html # load_error e, None)
      | Inr daily_df \<Rightarrow>
     (case load_agent_performance of
        Inl e \<Rightarrow> (St_markdown header_html # load_error e, None)
      | Inr agent_df \<Rightarrow>
     (case load_tag_analysis of
        Inl e \<Rightarrow> (St_markdown header_html # load_error e, None)
      | Inr tag_df \<Rightarrow>
     (case load_hourly_heatmap of
        Inl e \<Rightarrow> (St_markdown header_html # load_error e, None)
      | Inr heatmap_df \<Rightarrow>
          (case dashboard now s daily_df agent_df tag_df heatmap_df of
             (widgets, raised) \<Rightarrow> (St_markdown header_html # widgets, raised)))))))"

section \<open>Properties of the summary query\<close>

lemma COUNTIF_rated:
  "COUNTIF (\<lambda>r. csat_score r \<in> {Some ''good'', Some ''bad''}) rows =
     COUNTIF (\<lambda>r. csat_score r = Some ''good'') rows + COUNTIF (\<lambda>r. csat_score r = Some ''bad'') rows"
  by (induction rows) (auto simp: COUNTIF_def)

lemma COUNTIF_nonneg: "0 \<le> COUNTIF p rows"
  by (simp add: COUNTIF_def)

lemma sql_div_NULLIF:
  "sql_div x (NULLIF n 0) = Inr (if n = 0 then None else Some (x / of_int n))"
  by (simp add: sql_div_def NULLIF_def)

lemma round1_nonneg:
  assumes "0 \<le> x" shows "round1 x = of_int \<lfloor>x * 10 + 1 / 2\<rfloor> / 10"
proof (cases "x = 0")
  case True
  have "\<lfloor>(1::rat) / 2\<rfloor> = 0" by (simp add: floor_eq_iff)
  with True show ?thesis by (simp add: round1_def)
next
  case False
  with assms show ?thesis by (simp add: round1_def)
qed

lemma round1_minus: "round1 (- x) = - round1 x"
  by (simp add: round1_def sgn_minus)

lemma round1_close_nonneg:
  assumes "0 \<le> x" shows "\<bar>round1 x - x\<bar> \<le> 1 / 20"
proof -
  define z :: rat where "z = of_int \<lfloor>x * 10 + 1 / 2\<rfloor>"
  have "z \<le> x * 10 + 1 / 2" "x * 10 + 1 / 2 < z + 1"
    unfolding z_def by linarith+
  moreover have "round1 x = z / 10"
    unfolding z_def by (rule round1_nonneg [OF assms])
  ultimately show ?thesis by linarith
qed

lemma round1_close: "\<bar>round1 x - x\<bar> \<le> 1 / 20"
proof (cases "0 \<le> x")
  case True
  then show ?thesis by (rule round1_close_nonneg)
next
  case False
  then have "\<bar>round1 (- x) - (- x)\<bar> \<le> 1 / 20" by (intro round1_close_nonneg) simp
  then show ?thesis unfolding round1_minus by linarith
qed

lemma round1_one_decimal: "\<exists>k::int. round1 x = of_int k / 10"
proof -
  have "round1 x = of_int (sgn \<lfloor>x\<rfloor> * 0 + (if x < 0 then - 1 else if x = 0 then 0 else 1) * \<lfloor>\<bar>x\<bar> * 10 + 1 / 2\<rfloor>) / 10"
    by (simp add: round1_def sgn_if)
  then show ?thesis by blast
qed

lemma current_stats_query_csat:
  "\<exists>st. current_stats_query today rows = Inr st
     \<and> csat_rate st =
        (let good = COUNTIF (\<lambda>r. csat_score r = Some ''good'') rows;
             bad = COUNTIF (\<lambda>r. csat_score r = Some ''bad'') rows
         in if good + bad = 0 then None
            else Some (round1 (100 * of_int good / of_int (good + bad))))"
  unfolding current_stats_query_def sql_div_NULLIF COUNTIF_rated
  by (simp add: ROUND1_def Let_def)

text \<open>
  C8. The summary query never fails with a division by zero. Its \<open>csat_rate\<close> is NULL
  when no ticket is rated good or bad, and otherwise 100 times the good count over
  the good and bad counts, rounded by \<open>ROUND(_, 1)\<close>, whose result has one decimal
  place and lies within 0.05 of its argument.
\<close>

theorem summary_csat_rate:
  "(\<exists>st. current_stats_query today rows = Inr st
      \<and> csat_rate st =
         (let good = COUNTIF (\<lambda>r. csat_score r = Some ''good'') rows;
              bad = COUNTIF (\<lambda>r. csat_score r = Some ''bad'') rows
          in if good + bad = 0 then None
             else Some (round1 (100 * of_int good / of_int (good + bad)))))
   \<and> (\<exists>k::int. round1 x = of_int k / 10) \<and> \<bar>round1 x - x\<bar> \<le> 1 / 20"
  using current_stats_query_csat [of today rows] round1_one_decimal [of x] round1_close [of x]
  by (simp only: simp_thms)

lemma COUNTIF_append: "COUNTIF p (xs @ ys) = COUNTIF p xs + COUNTIF p ys"
  by (simp add: COUNTIF_def)

lemma COUNTIF_replicate: "COUNTIF p (replicate n x) = (if p x then int n else 0)"
  by (simp add: COUNTIF_def)

lemma round1_65: "round1 65 = 65"
proof -
  have "\<lfloor>(1301::rat) / 2\<rfloor> = 650" by (simp add: floor_eq_iff)
  then show ?thesis by (simp add: round1_def)
qed

text \<open>130 good and 70 bad ratings give 65.0; without ratings the rate is NULL.\<close>

theorem summary_csat_rate_witness:
  "(\<exists>st. current_stats_query 0
            (replicate 130 (rated_ticket (Some ''good'')) @ replicate 70 (rated_ticket (Some ''bad''))
             @ replicate 40 (rated_ticket None)) = Inr st
      \<and> csat_rate st = Some 65)
   \<and> (\<exists>st. current_stats_query 0 (replicate 40 (rated_ticket None)) = Inr st
      \<and> csat_rate st = None)"
proof -
  let ?rows = "replicate 130 (rated_ticket (Some ''good'')) @ replicate 70 (rated_ticket (Some ''bad''))
             @ replicate 40 (rated_ticket None)"
  have g: "COUNTIF (\<lambda>r. csat_score r = Some ''good'') ?rows = 130"
    and b: "COUNTIF (\<lambda>r. csat_score r = Some ''bad'') ?rows = 70"
    by (simp_all add: COUNTIF_append COUNTIF_replicate rated_ticket_def)
  have n: "COUNTIF (\<lambda>r. csat_score r = Some ''good'') (replicate 40 (rated_ticket None)) = 0"
    "COUNTIF (\<lambda>r. csat_score r = Some ''bad'') (replicate 40 (rated_ticket None)) = 0"
    by (simp_all add: COUNTIF_replicate rated_ticket_def)
  from summary_csat_rate [of 0 ?rows 0] summary_csat_rate [of 0 "replicate 40 (rated_ticket None)" 0]
  show ?thesis unfolding g b n by (simp add: round1_65)
qed

section \<open>Properties of the cache\<close>

lemma cache_fill_fetches:
  "fetches (snd (cache_fill k p now c)) k = Suc (fetches c k)"
  by (simp add: cache_fill_def Let_def)

lemma cache_fill_entry:
  "entries (snd (cache_fill k p now c)) k = Some (now, p now)"
  by (simp add: cache_fill_def Let_def)

lemma cache_fill_value: "fst (cache_fill k p now c) = p now"
  by (simp add: cache_fill_def Let_def)

lemma cached_miss:
  "entries c k = None \<or> (\<exists>t v. entries c k = Some (t, v) \<and> ttl_s \<le> now - t) \<Longrightarrow>
     cached k ttl_s p now c = cache_fill k p now c"
  by (auto simp: cached_def)

lemma cached_hit:
  "entries c k = Some (t, v) \<Longrightarrow> now - t < ttl_s \<Longrightarrow> cached k ttl_s p now c = (v, c)"
  by (simp add: cached_def)

lemma ttl_300: "ttl k = 300"
  by (cases k) simp_all

text \<open>
  C1, as amended. Each of the five loaders has a TTL of 300 seconds. Starting without a
  live entry for a loader, a first call invokes the query, a second call less than 300
  seconds after the first returns the stored result without invoking it, and a call
  300 seconds or more after the first invokes it again.
\<close>

theorem cache_ttl_window:
  assumes "entries c k = None \<or> (\<exists>t v. entries c k = Some (t, v) \<and> 300 \<le> t0 - t)"
    and "t1 - t0 < 300" and "300 \<le> t2 - t0"
  shows "ttl k = 300
    \<and> (let (v0, c0) = load w k t0 c; (v1, c1) = load w k t1 c0; (v2, c2) = load w k t2 c1
       in v0 = w k t0 \<and> fetches c0 k = fetches c k + 1
          \<and> v1 = v0 \<and> fetches c1 k = fetches c k + 1
          \<and> v2 = w k t2 \<and> fetches c2 k = fetches c k + 2)"
proof -
  define c0 where "c0 = snd (cache_fill k (w k) t0 c)"
  have first: "load w k t0 c = (w k t0, c0)"
    unfolding load_def ttl_300 c0_def using cached_miss [of c k 300 t0 "w k"] assms(1)
    by (simp add: cache_fill_value prod_eq_iff)
  have e0: "entries c0 k = Some (t0, w k t0)"
    unfolding c0_def by (rule cache_fill_entry)
  have f0: "fetches c0 k = Suc (fetches c k)"
    unfolding c0_def by (rule cache_fill_fetches)
  have second: "load w k t1 c0 = (w k t0, c0)"
    unfolding load_def ttl_300 using e0 assms(2) by (rule cached_hit)
  define c2 where "c2 = snd (cache_fill k (w k) t2 c0)"
  have third: "load w k t2 c0 = (w k t2, c2)"
    unfolding load_def ttl_300 c2_def using cached_miss [of c0 k 300 t2 "w k"] e0 assms(3)
    by (simp add: cache_fill_value prod_eq_iff)
  have f2: "fetches c2 k = Suc (fetches c0 k)"
    unfolding c2_def by (rule cache_fill_fetches)
  show ?thesis
    by (simp add: ttl_300 first second third f0 f2)
qed

theorem cache_ttl_window_witness:
  "ttl Load_tag_analysis = 300
   \<and> (let (v0, c0) = load (\<lambda>k t. t) Load_tag_analysis 1000 empty_cache;
          (v1, c1) = load (\<lambda>k t. t) Load_tag_analysis 1299 c0;
          (v2, c2) = load (\<lambda>k t. t) Load_tag_analysis 1300 c1
      in v0 = 1000 \<and> fetches c0 Load_tag_analysis = 1 \<and> v1 = 1000
         \<and> fetches c1 Load_tag_analysis = 1 \<and> v2 = 1300 \<and> fetches c2 Load_tag_analysis = 2)"
proof -
  have e: "entries (empty_cache :: int cache) Load_tag_analysis = None
     \<or> (\<exists>t v. entries (empty_cache :: int cache) Load_tag_analysis = Some (t, v) \<and> 300 \<le> 1000 - t)"
    by (simp add: empty_cache_def)
  have f: "fetches (empty_cache :: int cache) Load_tag_analysis = 0"
    by (simp add: empty_cache_def)
  from cache_ttl_window [OF e, of 1299 1300 "\<lambda>k t. t"] show ?thesis
    unfolding f by (auto split: prod.splits)
qed

text \<open>C1 as stated speaks of six query keys: app.py decorates five loaders.\<close>

theorem five_cached_loaders:
  "set cached_loaders = UNIV \<and> distinct cached_loaders \<and> length cached_loaders = 5
   \<and> length cached_loaders \<noteq> 6"
proof -
  have "k \<in> set cached_loaders" for k
    by (cases k) (simp_all add: cached_loaders_def)
  then have "set cached_loaders = UNIV" by blast
  then show ?thesis by (simp add: cached_loaders_def)
qed

section \<open>Properties of the moving average\<close>

lemma length_rolling_mean: "length (rolling_mean w xs) = length xs"
  by (simp add: rolling_mean_def)

lemma rolling_mean_nth:
  "i < length xs \<Longrightarrow>
     rolling_mean w xs ! i =
       (if i + 1 < w then None
        else Some (of_int (sum_list (take w (drop (i + 1 - w) xs))) / of_nat w))"
  by (simp add: rolling_mean_def)

lemma sum_list_window:
  fixes xs :: "int list"
  assumes "k + n \<le> length xs"
  shows "sum_list (take n (drop k xs)) = (\<Sum>j = k..<k + n. xs ! j)"
proof -
  have "sum_list (take n (drop k xs)) = (\<Sum>j = 0..<n. take n (drop k xs) ! j)"
    using assms by (simp add: sum_list_sum_nth)
  also have "\<dots> = (\<Sum>j = 0..<n. xs ! (k + j))"
    using assms by (intro sum.cong) simp_all
  also have "\<dots> = (\<Sum>j = k..<k + n. xs ! j)"
    using sum.shift_bounds_nat_ivl [of "\<lambda>j. xs ! j" 0 k n] by (simp add: add.commute)
  finally show ?thesis .
qed

lemma sorted_example_daily:
  "map ticket_count (sort_values_created_date example_daily) = [2, 4, 6, 8, 10, 12, 14]"
  by (simp add: sort_values_created_date_def example_daily_def)

text \<open>
  C2. The trend series is the daily table sorted by date in ascending order. Its
  moving average has one value for each row: the first six are undefined (NaN), all
  alike, and from the seventh on the value is the mean of the ticket counts of that
  row and the six before it.
\<close>

theorem ma7_trailing_average:
  "length (ma7 df) = length df
   \<and> sorted (map created_date (sort_values_created_date df))
   \<and> mset (sort_values_created_date df) = mset df
   \<and> (\<forall>i. i < length df \<and> i < 6 \<longrightarrow> ma7 df ! i = None)
   \<and> (\<forall>i. i < length df \<and> 6 \<le> i \<longrightarrow>
         ma7 df ! i =
           Some (of_int (\<Sum>j = i - 6..<i + 1. ticket_count (sort_values_created_date df ! j)) / 7))"
proof -
  let ?s = "sort_values_created_date df"
  have len: "length ?s = length df"
    by (simp add: sort_values_created_date_def)
  have early: "ma7 df ! i = None" if "i < length df" "i < 6" for i
    using that by (simp add: ma7_def rolling_mean_nth len)
  have late: "ma7 df ! i =
      Some (of_int (\<Sum>j = i - 6..<i + 1. ticket_count (?s ! j)) / 7)"
    if "i < length df" "6 \<le> i" for i
  proof -
    have "sum_list (take 7 (drop (i - 6) (map ticket_count ?s))) =
        (\<Sum>j = i - 6..<i - 6 + 7. map ticket_count ?s ! j)"
      using that by (intro sum_list_window) (simp add: len)
    also have "\<dots> = (\<Sum>j = i - 6..<i + 1. ticket_count (?s ! j))"
      using that by (intro sum.cong) (simp_all add: len)
    finally show ?thesis
      using that by (simp add: ma7_def rolling_mean_nth len)
  qed
  show ?thesis
    using early late by (simp add: ma7_def length_rolling_mean sort_values_created_date_def)
qed

text \<open>The series 2, 4, ..., 14, loaded in descending order of date: the seventh point is 8.\<close>

theorem ma7_trailing_average_witness:
  "map ticket_count (sort_values_created_date example_daily) = [2, 4, 6, 8, 10, 12, 14]
   \<and> ma7 example_daily ! 6 = Some 8
   \<and> ma7 example_daily ! 0 = None \<and> ma7 example_daily ! 5 = None
   \<and> length (ma7 example_daily) = 7"
proof -
  have l: "length example_daily = 7" by (simp add: example_daily_def)
  have s: "(\<Sum>j = 6 - 6..<6 + 1. ticket_count (sort_values_created_date example_daily ! j)) = 56"
  proof -
    have "(\<Sum>j = 6 - 6..<6 + 1. ticket_count (sort_values_created_date example_daily ! j)) =
        (\<Sum>j = 0..<7. map ticket_count (sort_values_created_date example_daily) ! j)"
      by (intro sum.cong) (simp_all add: sort_values_created_date_def l)
    also have "\<dots> = 56"
      unfolding sorted_example_daily by (simp add: numeral_eq_Suc)
    finally show ?thesis .
  qed
  note t = ma7_trailing_average [of example_daily]
  note early = t [THEN conjunct2, THEN conjunct2, THEN conjunct2, THEN conjunct1, rule_format]
  note late = t [THEN conjunct2, THEN conjunct2, THEN conjunct2, THEN conjunct2, rule_format,
      of 6, unfolded s]
  have "ma7 example_daily ! 6 = Some 8"
    using late by (simp add: l)
  moreover have "ma7 example_daily ! 0 = None" "ma7 example_daily ! 5 = None"
    using early [of 0] early [of 5] by (simp_all add: l)
  moreover have "length (ma7 example_daily) = 7"
    using t l by simp
  ultimately show ?thesis
    by (simp only: sorted_example_daily simp_thms)
qed

section \<open>Properties of the heatmap pivot\<close>

lemma pivot_cell_absent:
  "d \<notin> created_day_of_week ` set rows \<Longrightarrow> pivot_cell rows d h = None"
  by (auto simp: pivot_cell_def filter_empty_conv)

lemma reindex_values:
  "p_values (reindex labels p) =
     map (\<lambda>d. case map_of (zip (p_index p) (p_values p)) d of
                Some row \<Rightarrow> row
              | None \<Rightarrow> replicate (length (p_columns p)) None) labels"
  by (simp add: reindex_def)

lemma pivot_table_sel:
  "p_index (pivot_table rows) = sort (remdups (map created_day_of_week rows))"
  "p_columns (pivot_table rows) = sort (remdups (map created_hour rows))"
  "p_values (pivot_table rows) =
     map (\<lambda>d. map (pivot_cell rows d) (sort (remdups (map created_hour rows))))
       (sort (remdups (map created_day_of_week rows)))"
  by (simp_all add: pivot_table_def Let_def)

lemma heatmap_pivot_values:
  "p_values (heatmap_pivot rows) =
     map (\<lambda>d. map (pivot_cell rows d) (sort (remdups (map created_hour rows)))) day_order"
proof -
  let ?idx = "sort (remdups (map created_day_of_week rows))"
  let ?cols = "sort (remdups (map created_hour rows))"
  have look: "map_of (zip ?idx (map (\<lambda>d. map (pivot_cell rows d) ?cols) ?idx)) d =
      (if d \<in> set ?idx then Some (map (pivot_cell rows d) ?cols) else None)" for d
    by (simp add: map_of_zip_map)
  have row: "(case map_of (zip ?idx (map (\<lambda>d. map (pivot_cell rows d) ?cols) ?idx)) d of
        Some r \<Rightarrow> r | None \<Rightarrow> replicate (length ?cols) None) = map (pivot_cell rows d) ?cols" for d
  proof (cases "d \<in> set ?idx")
    case True
    then show ?thesis unfolding look by simp
  next
    case False
    then have "d \<notin> created_day_of_week ` set rows" by simp
    then have "pivot_cell rows d = (\<lambda>h. None)"
      by (intro ext) (rule pivot_cell_absent)
    then have "map (pivot_cell rows d) ?cols = replicate (length ?cols) None"
      by (simp add: map_replicate_const)
    with False show ?thesis unfolding look by simp
  qed
  show ?thesis
    unfolding heatmap_pivot_def reindex_values pivot_table_sel by (simp only: row)
qed

lemma heatmap_pivot_columns:
  "p_columns (heatmap_pivot rows) = sort (remdups (map created_hour rows))"
  by (simp add: heatmap_pivot_def reindex_def pivot_table_def Let_def)

lemma heatmap_pivot_index: "p_index (heatmap_pivot rows) = day_order"
  by (simp add: heatmap_pivot_def reindex_def)

lemma length_day_order: "length day_order = 7"
  by (simp add: day_order_def)

lemma length_hours: "length (sort (remdups (map created_hour rows))) = card (created_hour ` set rows)"
  by (simp add: length_remdups_card_conv)


text \<open>
  C5, as amended. The pivot has the seven rows Monday to Sunday, in that order, and one
  column for each distinct hour of the table, in ascending order. The cell of a day
  and an hour is the sum of the counts of all rows with that day and hour, so that
  duplicate rows are added up, and it is absent (NaN) when there is none. A day
  without rows is a row of absent cells.
\<close>

theorem heatmap_pivot_shape:
  "p_index (heatmap_pivot rows) = day_order
   \<and> day_order =
       [''Monday'', ''Tuesday'', ''Wednesday'', ''Thursday'', ''Friday'', ''Saturday'', ''Sunday'']
   \<and> sorted (p_columns (heatmap_pivot rows)) \<and> distinct (p_columns (heatmap_pivot rows))
   \<and> set (p_columns (heatmap_pivot rows)) = created_hour ` set rows
   \<and> length (p_values (heatmap_pivot rows)) = 7
   \<and> (\<forall>i. i < 7 \<longrightarrow>
         length (p_values (heatmap_pivot rows) ! i) = card (created_hour ` set rows))
   \<and> (\<forall>i j. i < 7 \<and> j < card (created_hour ` set rows) \<longrightarrow>
         p_values (heatmap_pivot rows) ! i ! j =
           (let group = filter (\<lambda>r. created_day_of_week r = day_order ! i
                                  \<and> created_hour r = p_columns (heatmap_pivot rows) ! j) rows
            in if group = [] then None else Some (sum_list (map heat_ticket_count group))))
   \<and> (\<forall>i. i < 7 \<and> day_order ! i \<notin> created_day_of_week ` set rows \<longrightarrow>
         p_values (heatmap_pivot rows) ! i = replicate (card (created_hour ` set rows)) None)"
proof -
  let ?cols = "sort (remdups (map created_hour rows))"
  note len = length_hours [of rows]
  have row: "p_values (heatmap_pivot rows) ! i = map (pivot_cell rows (day_order ! i)) ?cols"
    if "i < 7" for i
    using that unfolding heatmap_pivot_values by (simp add: length_day_order)
  have cell: "p_values (heatmap_pivot rows) ! i ! j =
      (let group = filter (\<lambda>r. created_day_of_week r = day_order ! i
                                  \<and> created_hour r = p_columns (heatmap_pivot rows) ! j) rows
            in if group = [] then None else Some (sum_list (map heat_ticket_count group)))"
    if "i < 7" "j < card (created_hour ` set rows)" for i j
    using that unfolding row [OF that(1)] heatmap_pivot_columns
    by (simp add: length_remdups_card_conv pivot_cell_def)
  have absent: "p_values (heatmap_pivot rows) ! i = replicate (card (created_hour ` set rows)) None"
    if "i < 7" "day_order ! i \<notin> created_day_of_week ` set rows" for i
  proof -
    have "pivot_cell rows (day_order ! i) = (\<lambda>h. None)"
      by (intro ext) (rule pivot_cell_absent [OF that(2)])
    then show ?thesis
      unfolding row [OF that(1)] by (simp add: map_replicate_const length_remdups_card_conv)
  qed
  have width: "length (p_values (heatmap_pivot rows) ! i) = card (created_hour ` set rows)"
    if "i < 7" for i
    unfolding row [OF that] by (simp add: length_remdups_card_conv)
  have cols: "sorted (p_columns (heatmap_pivot rows)) \<and> distinct (p_columns (heatmap_pivot rows))
      \<and> set (p_columns (heatmap_pivot rows)) = created_hour ` set rows"
    unfolding heatmap_pivot_columns by simp
  have height: "length (p_values (heatmap_pivot rows)) = 7"
    unfolding heatmap_pivot_values by (simp add: length_day_order)
  show ?thesis
    using cols height width cell absent
    by (simp only: heatmap_pivot_index day_order_def [symmetric] simp_thms) (simp add: day_order_def)
qed


lemma example_heatmap_hours: "sort (remdups (map created_hour example_heatmap)) = [9]"
  by (simp add: example_heatmap_def)

lemma example_heatmap_card: "card (created_hour ` set example_heatmap) = 1"
  by (simp add: example_heatmap_def)

text \<open>The rows (Monday, 9, 5) and (Monday, 9, 3): one cell of value 8 at Monday, 9:00.\<close>

theorem heatmap_pivot_shape_witness:
  "p_values (heatmap_pivot example_heatmap) ! 0 ! 0 = Some 8
   \<and> p_values (heatmap_pivot example_heatmap) ! 1 = [None]
   \<and> length (p_values (heatmap_pivot example_heatmap)) = 7
   \<and> length (p_values (heatmap_pivot example_heatmap) ! 0) = 1
   \<and> p_index (heatmap_pivot example_heatmap) =
       [''Monday'', ''Tuesday'', ''Wednesday'', ''Thursday'', ''Friday'', ''Saturday'', ''Sunday'']"
proof -
  note t = heatmap_pivot_shape [of example_heatmap, unfolded example_heatmap_card]
  have c: "p_columns (heatmap_pivot example_heatmap) ! 0 = 9"
    by (simp add: heatmap_pivot_columns example_heatmap_hours)
  have tue: "day_order ! 1 \<notin> created_day_of_week ` set example_heatmap"
    by (simp add: day_order_def example_heatmap_def)
  have "p_values (heatmap_pivot example_heatmap) ! 0 ! 0 = Some 8"
    using t c by (simp add: day_order_def example_heatmap_def)
  moreover have "p_values (heatmap_pivot example_heatmap) ! 1 = [None]"
    using t tue by simp
  moreover have "length (p_values (heatmap_pivot example_heatmap) ! 0) = 1"
    using t by simp
  ultimately show ?thesis
    using t by simp
qed

text \<open>C5 as stated asks for 7 by 24: the same table gives 7 by 1.\<close>

theorem heatmap_pivot_one_column:
  "p_values (heatmap_pivot example_heatmap) =
     [[Some 8], [None], [None], [None], [None], [None], [None]]
   \<and> p_columns (heatmap_pivot example_heatmap) = [9]
   \<and> hour_labels (heatmap_pivot example_heatmap) = [''9:00'']
   \<and> length (p_columns (heatmap_pivot example_heatmap)) \<noteq> 24"
proof -
  have h: "hour_labels (heatmap_pivot example_heatmap) = [''9:00'']"
    by (simp add: hour_labels_def heatmap_pivot_columns example_heatmap_hours string_of_int_def
        string_of_nat.simps digit_char_def)
  have v: "p_values (heatmap_pivot example_heatmap) =
     [[Some 8], [None], [None], [None], [None], [None], [None]]"
    unfolding heatmap_pivot_values example_heatmap_hours
    by (simp add: day_order_def pivot_cell_def example_heatmap_def)
  show ?thesis
    using h v by (simp add: heatmap_pivot_columns example_heatmap_hours)
qed

section \<open>Properties of the leaderboards\<close>

lemma nlargest_length: "length (nlargest n column df) = min n (length df)"
  by (simp add: nlargest_def)

lemma nlargest_mset: "mset (nlargest n column df) \<subseteq># mset df"
proof -
  have "mset (take n (sort_key (\<lambda>r. - column r) df)) \<subseteq># mset (sort_key (\<lambda>r. - column r) df)"
    by (metis append_take_drop_id mset_append mset_subset_eq_add_left)
  then show ?thesis by (simp add: nlargest_def)
qed

lemma nlargest_set: "set (nlargest n column df) \<subseteq> set df"
  using set_mset_mono [OF nlargest_mset [of n column df]] by simp

lemma sorted_desc_sort_key:
  fixes column :: "'a \<Rightarrow> 'k::linordered_ab_group_add"
  shows "sorted_wrt (\<lambda>a b. column b \<le> column a) (sort_key (\<lambda>r. - column r) df)"
  using sorted_sort_key [of "\<lambda>r. - column r" df] by (simp add: sorted_map)

lemma nlargest_sorted: "sorted_wrt (\<lambda>a b. column b \<le> column a) (nlargest n column df)"
  unfolding nlargest_def by (rule sorted_wrt_take [OF sorted_desc_sort_key])

lemma nlargest_rest:
  "mset df - mset (nlargest n column df) = mset (drop n (sort_key (\<lambda>r. - column r) df))"
proof -
  let ?s = "sort_key (\<lambda>r. - column r) df"
  have "mset df = mset (take n ?s) + mset (drop n ?s)"
    by (metis append_take_drop_id mset_append mset_sort)
  then show ?thesis by (simp add: nlargest_def)
qed

lemma nlargest_dominates:
  assumes "a \<in> set (nlargest n column df)" and "b \<in># mset df - mset (nlargest n column df)"
  shows "column b \<le> column a"
proof -
  let ?s = "sort_key (\<lambda>r. - column r) df"
  have "sorted_wrt (\<lambda>a b. column b \<le> column a) (take n ?s @ drop n ?s)"
    using sorted_desc_sort_key [of column df] by simp
  moreover have "a \<in> set (take n ?s)" using assms(1) by (simp add: nlargest_def)
  moreover have "b \<in> set (drop n ?s)" using assms(2) unfolding nlargest_rest by simp
  ultimately show ?thesis unfolding sorted_wrt_append by blast
qed

lemma nlargest_ties:
  fixes column :: "'a \<Rightarrow> 'k::linordered_ab_group_add"
  shows "prefix (filter (\<lambda>r. column r = k) (nlargest n column df)) (filter (\<lambda>r. column r = k) df)"
proof -
  let ?s = "sort_key (\<lambda>r. - column r) df"
  have "filter (\<lambda>r. - column r = - k) ?s = filter (\<lambda>r. - column r = - k) df"
    by (rule sort_key_stable)
  then have "filter (\<lambda>r. column r = k) ?s = filter (\<lambda>r. column r = k) df" by simp
  moreover have "prefix (filter (\<lambda>r. column r = k) (take n ?s)) (filter (\<lambda>r. column r = k) ?s)"
    by (intro filter_mono_prefix take_is_prefix)
  ultimately show ?thesis by (simp add: nlargest_def)
qed

lemma max_created_month_Nil: "max_created_month [] = None"
  by (simp add: max_created_month_def)

lemma max_created_month_Max:
  "df \<noteq> [] \<Longrightarrow> max_created_month df = Some (Max (created_month ` set df))"
proof (cases df)
  case Nil
  then show "df \<noteq> [] \<Longrightarrow> ?thesis" by simp
next
  case (Cons r rs)
  have "fold max (map created_month rs) (created_month r) = Max (set (created_month r # map created_month rs))"
    by (rule Max.set_eq_fold [symmetric])
  with Cons show ?thesis by (simp add: max_created_month_def)
qed

lemma current_month_eq:
  "current_month df = filter (\<lambda>r. \<forall>r' \<in> set df. created_month r' \<le> created_month r) df"
proof (cases "df = []")
  case True
  then show ?thesis by (simp add: current_month_def)
next
  case False
  have "(Some (created_month r) = max_created_month df) =
      (\<forall>r' \<in> set df. created_month r' \<le> created_month r)" if "r \<in> set df" for r
  proof -
    have "(created_month r = Max (created_month ` set df)) =
        (\<forall>r' \<in> set df. created_month r' \<le> created_month r)"
      using that False by (auto intro!: Max_eqI [symmetric])
    then show ?thesis using False by (auto simp: max_created_month_Max)
  qed
  then show ?thesis unfolding current_month_def by (intro filter_cong) simp_all
qed

lemma current_month_empty_iff: "current_month df = [] \<longleftrightarrow> df = []"
proof
  assume e: "current_month df = []"
  show "df = []"
  proof (rule ccontr)
    assume ne: "df \<noteq> []"
    then have "Max (created_month ` set df) \<in> created_month ` set df"
      by (intro Max_in) simp_all
    then obtain r where "r \<in> set df" "created_month r = Max (created_month ` set df)" by auto
    then have "r \<in> set (current_month df)"
      using ne by (simp add: current_month_def max_created_month_Max)
    with e show False by simp
  qed
qed (simp add: current_month_def)

text \<open>
  C4. Both leaderboards are built from the rows of the latest month of the table. The
  tickets leaderboard holds ten of them, or all when there are fewer, in descending
  order of \<open>tickets_handled\<close>; every row left out has at most the tickets of every row
  taken; among rows with equal tickets the leaderboard follows the order of the
  table, which is the tie-break of \<open>nlargest\<close>. No row of an earlier month is ever
  taken. The CSAT leaderboard is the same selection of five by \<open>csat_rate\<close> among the
  rows of the latest month with at least ten tickets.
\<close>

theorem leaderboards:
  "current_month df = filter (\<lambda>r. \<forall>r' \<in> set df. created_month r' \<le> created_month r) df
   \<and> (\<forall>r \<in> set (top_agents df). r \<in> set df \<and> (\<forall>r' \<in> set df. created_month r' \<le> created_month r))
   \<and> mset (top_agents df) \<subseteq># mset (current_month df)
   \<and> length (top_agents df) = min 10 (length (current_month df))
   \<and> sorted_wrt (\<lambda>a b. tickets_handled b \<le> tickets_handled a) (top_agents df)
   \<and> (\<forall>a \<in> set (top_agents df). \<forall>b \<in># mset (current_month df) - mset (top_agents df).
         tickets_handled b \<le> tickets_handled a)
   \<and> (\<forall>k. prefix (filter (\<lambda>r. tickets_handled r = k) (top_agents df))
               (filter (\<lambda>r. tickets_handled r = k) (current_month df)))
   \<and> (\<forall>r \<in> set (top_csat df). 10 \<le> tickets_handled r \<and> r \<in> set df
         \<and> (\<forall>r' \<in> set df. created_month r' \<le> created_month r))
   \<and> mset (top_csat df) \<subseteq># mset (filter (\<lambda>r. 10 \<le> tickets_handled r) (current_month df))
   \<and> length (top_csat df) =
       min 5 (length (filter (\<lambda>r. 10 \<le> tickets_handled r) (current_month df)))
   \<and> sorted_wrt (\<lambda>a b. agent_csat_rate b \<le> agent_csat_rate a) (top_csat df)
   \<and> (\<forall>a \<in> set (top_csat df).
         \<forall>b \<in># mset (filter (\<lambda>r. 10 \<le> tickets_handled r) (current_month df)) - mset (top_csat df).
           agent_csat_rate b \<le> agent_csat_rate a)
   \<and> (\<forall>k. prefix (filter (\<lambda>r. agent_csat_rate r = k) (top_csat df))
               (filter (\<lambda>r. agent_csat_rate r = k)
                  (filter (\<lambda>r. 10 \<le> tickets_handled r) (current_month df))))"
proof -
  let ?cm = "current_month df"
  let ?el = "filter (\<lambda>r. 10 \<le> tickets_handled r) ?cm"
  have cm: "?cm = filter (\<lambda>r. \<forall>r' \<in> set df. created_month r' \<le> created_month r) df"
    by (rule current_month_eq)
  have in_cm: "r \<in> set df \<and> (\<forall>r' \<in> set df. created_month r' \<le> created_month r)"
    if "r \<in> set ?cm" for r
    using that unfolding cm by simp
  have a1: "\<forall>r \<in> set (top_agents df). r \<in> set df \<and> (\<forall>r' \<in> set df. created_month r' \<le> created_month r)"
    using nlargest_set [of 10 tickets_handled ?cm] in_cm unfolding top_agents_def by blast
  have a2: "mset (top_agents df) \<subseteq># mset ?cm"
    unfolding top_agents_def by (rule nlargest_mset)
  have a3: "length (top_agents df) = min 10 (length ?cm)"
    unfolding top_agents_def by (rule nlargest_length)
  have a4: "sorted_wrt (\<lambda>a b. tickets_handled b \<le> tickets_handled a) (top_agents df)"
    unfolding top_agents_def by (rule nlargest_sorted)
  have a5: "\<forall>a \<in> set (top_agents df). \<forall>b \<in># mset ?cm - mset (top_agents df).
         tickets_handled b \<le> tickets_handled a"
    unfolding top_agents_def using nlargest_dominates [of _ 10 tickets_handled ?cm] by blast
  have a6: "\<forall>k. prefix (filter (\<lambda>r. tickets_handled r = k) (top_agents df))
               (filter (\<lambda>r. tickets_handled r = k) ?cm)"
    unfolding top_agents_def using nlargest_ties [of tickets_handled _ 10 ?cm] by blast
  have c1: "\<forall>r \<in> set (top_csat df). 10 \<le> tickets_handled r \<and> r \<in> set df
         \<and> (\<forall>r' \<in> set df. created_month r' \<le> created_month r)"
  proof
    fix r assume "r \<in> set (top_csat df)"
    then have "r \<in> set ?el"
      using nlargest_set [of 5 agent_csat_rate ?el] unfolding top_csat_def by blast
    then have "10 \<le> tickets_handled r" "r \<in> set ?cm" by simp_all
    with in_cm [of r] show "10 \<le> tickets_handled r \<and> r \<in> set df
         \<and> (\<forall>r' \<in> set df. created_month r' \<le> created_month r)" by blast
  qed
  have c2: "mset (top_csat df) \<subseteq># mset ?el"
    unfolding top_csat_def by (rule nlargest_mset)
  have c3: "length (top_csat df) = min 5 (length ?el)"
    unfolding top_csat_def by (rule nlargest_length)
  have c4: "sorted_wrt (\<lambda>a b. agent_csat_rate b \<le> agent_csat_rate a) (top_csat df)"
    unfolding top_csat_def by (rule nlargest_sorted)
  have c5: "\<forall>a \<in> set (top_csat df). \<forall>b \<in># mset ?el - mset (top_csat df).
           agent_csat_rate b \<le> agent_csat_rate a"
    unfolding top_csat_def using nlargest_dominates [of _ 5 agent_csat_rate ?el] by blast
  have c6: "\<forall>k. prefix (filter (\<lambda>r. agent_csat_rate r = k) (top_csat df))
               (filter (\<lambda>r. agent_csat_rate r = k) ?el)"
    unfolding top_csat_def using nlargest_ties [of agent_csat_rate _ 5 ?el] by blast
  from cm a1 a2 a3 a4 a5 a6 c1 c2 c3 c4 c5 c6 show ?thesis
    by (intro conjI)
qed

lemma top_agents_example:
  "map agent_name (top_agents example_agents) =
     [''Ann'', ''Bob'', ''Cid'', ''Dee'', ''Eve'', ''Fay'', ''Gus'', ''Hal'', ''Ida'', ''Zed'']"
  by (simp add: top_agents_def nlargest_def current_month_def max_created_month_def
      example_agents_def agent_def)

lemma top_csat_example:
  "map agent_name (top_csat example_agents) = [''Eve'', ''Bob'', ''Gus'', ''Ann'', ''Cid'']"
  by (simp add: top_csat_def nlargest_def current_month_def max_created_month_def
      example_agents_def agent_def)


lemma current_month_example: "length (current_month example_agents) = 11"
  by (simp add: current_month_def max_created_month_def example_agents_def agent_def)

text \<open>
  In the example Zed and Amy tie at 12 tickets for the tenth place: Zed, the earlier
  row, is taken. Old has the most tickets but belongs to an earlier month.
\<close>

theorem leaderboards_witness:
  "agent ''Old'' 1 500 1 \<notin> set (top_agents example_agents)
   \<and> length (top_agents example_agents) = 10
   \<and> map agent_name (top_agents example_agents) =
       [''Ann'', ''Bob'', ''Cid'', ''Dee'', ''Eve'', ''Fay'', ''Gus'', ''Hal'', ''Ida'', ''Zed'']
   \<and> map agent_name (top_csat example_agents) = [''Eve'', ''Bob'', ''Gus'', ''Ann'', ''Cid'']"
proof -
  note t = leaderboards [of example_agents]
  note only_max = t [THEN conjunct2, THEN conjunct1, rule_format]
  note len = t [THEN conjunct2, THEN conjunct2, THEN conjunct2, THEN conjunct1]
  have old: "agent ''Old'' 1 500 1 \<notin> set (top_agents example_agents)"
  proof
    assume "agent ''Old'' 1 500 1 \<in> set (top_agents example_agents)"
    then have "\<forall>r' \<in> set example_agents. created_month r' \<le> created_month (agent ''Old'' 1 500 1)"
      using only_max by blast
    moreover have "agent ''Ann'' 2 90 (8 / 10) \<in> set example_agents"
      by (simp add: example_agents_def)
    ultimately have "created_month (agent ''Ann'' 2 90 (8 / 10)) \<le> created_month (agent ''Old'' 1 500 1)"
      by blast
    then show False by (simp add: agent_def)
  qed
  have "length (top_agents example_agents) = 10"
    using len by (simp add: current_month_example)
  with old show ?thesis
    by (simp only: top_agents_example top_csat_example simp_thms)
qed

section \<open>Properties of the KPI cards\<close>

lemma round_half_even_of_int: "round_half_even (of_int n) = n"
  by (simp add: round_half_even_def)

lemma format_f_of_int: "format_f 0 (of_int n) = string_of_int n"
  by (simp add: format_f_def string_of_int_def round_half_even_of_int flip: of_int_abs)

lemma format_f_abs: "format_f 0 (of_int \<bar>d\<bar>) = string_of_nat (nat \<bar>d\<bar>)"
  unfolding format_f_of_int by (simp add: string_of_int_def)

lemma string_of_nat_not_Nil: "string_of_nat n \<noteq> []"
  by (subst string_of_nat.simps) simp

lemma string_of_nat_0: "string_of_nat 0 = ''0''"
  by (simp add: string_of_nat.simps digit_char_def)

lemma string_of_nat_20: "string_of_nat 20 = ''20''"
  by (simp add: string_of_nat.simps digit_char_def)

lemma string_of_int_examples:
  "string_of_int 120 = ''120''" "string_of_int 80 = ''80''" "string_of_int 100 = ''100''"
  by (simp_all add: string_of_int_def string_of_nat.simps digit_char_def)

lemma today_card_eq:
  \<open>today_card s =
     render_metric_card (string_of_int (today_tickets s)) (''Today'' @ [CHR 0x27] @ ''s Tickets'')
       (Some (string_of_nat (nat \<bar>today_delta s\<bar>) @ '' vs yesterday'')) (delta_type s)\<close>
  unfolding today_card_def format_f_abs unfolding format_f_of_int by (rule refl)

lemma delta_html_today:
  \<open>delta_html (Some (string_of_nat n @ '' vs yesterday'')) ty =
     ''<div class="'' @ (if ty = ''positive'' then ''metric-delta-positive'' else ''metric-delta-negative'')
     @ ''">'' @ (if ty = ''positive'' then up_arrow else down_arrow)
     @ '' '' @ string_of_nat n @ '' vs yesterday</div>''\<close>
  by (simp add: delta_html_def)

text \<open>
  C3. The delta of the last card is today's tickets minus yesterday's. The rendered
  card shows its absolute value followed by "vs yesterday". The framing is "negative"
  exactly when the delta is above zero and "positive" otherwise, and the delta line of
  the card carries the matching class and arrow.
\<close>

theorem today_delta_framing:
  \<open>today_delta s = today_tickets s - yesterday_tickets s
   \<and> (delta_type s = ''negative'' \<longleftrightarrow> 0 < today_delta s)
   \<and> (delta_type s = ''positive'' \<longleftrightarrow> today_delta s \<le> 0)
   \<and> today_card s =
       ''\<newline>    <div class="metric-card">\<newline>        <div class="metric-value">''
       @ string_of_int (today_tickets s)
       @ ''</div>\<newline>        <div class="metric-label">Today'' @ [CHR 0x27] @ ''s Tickets</div>\<newline>        ''
       @ (if 0 < today_tickets s - yesterday_tickets s
          then ''<div class="metric-delta-negative">'' @ [CHR 0xE2, CHR 0x86, CHR 0x93]
          else ''<div class="metric-delta-positive">'' @ [CHR 0xE2, CHR 0x86, CHR 0x91])
       @ '' '' @ string_of_nat (nat \<bar>today_tickets s - yesterday_tickets s\<bar>)
       @ '' vs yesterday</div>\<newline>    </div>\<newline>    ''\<close>
proof -
  have frame: \<open>(delta_type s = ''negative'' \<longleftrightarrow> 0 < today_delta s)
      \<and> (delta_type s = ''positive'' \<longleftrightarrow> today_delta s \<le> 0)\<close>
    by (simp add: delta_type_def)
  have html: \<open>today_card s =
       ''\<newline>    <div class="metric-card">\<newline>        <div class="metric-value">''
       @ string_of_int (today_tickets s)
       @ ''</div>\<newline>        <div class="metric-label">Today'' @ [CHR 0x27] @ ''s Tickets</div>\<newline>        ''
       @ (if 0 < today_delta s
          then ''<div class="metric-delta-negative">'' @ [CHR 0xE2, CHR 0x86, CHR 0x93]
          else ''<div class="metric-delta-positive">'' @ [CHR 0xE2, CHR 0x86, CHR 0x91])
       @ '' '' @ string_of_nat (nat \<bar>today_delta s\<bar>)
       @ '' vs yesterday</div>\<newline>    </div>\<newline>    ''\<close>
    unfolding today_card_eq render_metric_card_def delta_html_today
    by (simp add: delta_type_def up_arrow_def down_arrow_def)
  from frame html show ?thesis
    by (simp only: today_delta_def simp_thms)
qed

text \<open>The two examples: 120 after 100, and 80 after 100.\<close>

theorem today_delta_framing_witness:
  \<open>today_delta (example_stats (Some 70) 120 100) = 20
   \<and> delta_type (example_stats (Some 70) 120 100) = ''negative''
   \<and> today_card (example_stats (Some 70) 120 100) =
       ''\<newline>    <div class="metric-card">\<newline>        <div class="metric-value">120''
       @ ''</div>\<newline>        <div class="metric-label">Today'' @ [CHR 0x27] @ ''s Tickets</div>\<newline>        ''
       @ ''<div class="metric-delta-negative">'' @ [CHR 0xE2, CHR 0x86, CHR 0x93]
       @ '' 20 vs yesterday</div>\<newline>    </div>\<newline>    ''
   \<and> today_delta (example_stats (Some 70) 80 100) = - 20
   \<and> delta_type (example_stats (Some 70) 80 100) = ''positive''
   \<and> today_card (example_stats (Some 70) 80 100) =
       ''\<newline>    <div class="metric-card">\<newline>        <div class="metric-value">80''
       @ ''</div>\<newline>        <div class="metric-label">Today'' @ [CHR 0x27] @ ''s Tickets</div>\<newline>        ''
       @ ''<div class="metric-delta-positive">'' @ [CHR 0xE2, CHR 0x86, CHR 0x91]
       @ '' 20 vs yesterday</div>\<newline>    </div>\<newline>    ''\<close>
proof -
  have a: "today_tickets (example_stats (Some 70) 120 100) = 120"
    "yesterday_tickets (example_stats (Some 70) 120 100) = 100"
    "today_tickets (example_stats (Some 70) 80 100) = 80"
    "yesterday_tickets (example_stats (Some 70) 80 100) = 100"
    by (simp_all add: example_stats_def)
  note more = today_delta_framing [of "example_stats (Some 70) 120 100", unfolded a]
  note fewer = today_delta_framing [of "example_stats (Some 70) 80 100", unfolded a]
  from more have m: "today_delta (example_stats (Some 70) 120 100) = 20"
    "delta_type (example_stats (Some 70) 120 100) = ''negative''" by simp_all
  from fewer have f: "today_delta (example_stats (Some 70) 80 100) = - 20"
    "delta_type (example_stats (Some 70) 80 100) = ''positive''" by simp_all
  from more have mc: \<open>today_card (example_stats (Some 70) 120 100) =
       ''\<newline>    <div class="metric-card">\<newline>        <div class="metric-value">120''
       @ ''</div>\<newline>        <div class="metric-label">Today'' @ [CHR 0x27] @ ''s Tickets</div>\<newline>        ''
       @ ''<div class="metric-delta-negative">'' @ [CHR 0xE2, CHR 0x86, CHR 0x93]
       @ '' 20 vs yesterday</div>\<newline>    </div>\<newline>    ''\<close>
    by (simp add: string_of_int_examples string_of_nat_20)
  from fewer have fc: \<open>today_card (example_stats (Some 70) 80 100) =
       ''\<newline>    <div class="metric-card">\<newline>        <div class="metric-value">80''
       @ ''</div>\<newline>        <div class="metric-label">Today'' @ [CHR 0x27] @ ''s Tickets</div>\<newline>        ''
       @ ''<div class="metric-delta-positive">'' @ [CHR 0xE2, CHR 0x86, CHR 0x91]
       @ '' 20 vs yesterday</div>\<newline>    </div>\<newline>    ''\<close>
    by (simp add: string_of_int_examples string_of_nat_20)
  from m f mc fc show ?thesis by (intro conjI)
qed

lemma csat_card_null: "csat_rate s = None \<Longrightarrow> csat_card s = Inl TypeError"
  by (simp add: csat_card_def py_gt_def truth_def)

lemma csat_card_value:
  "csat_rate s = Some x \<Longrightarrow>
     csat_card s =
       Inr (render_metric_card (format_f 0 x @ ''%'') ''CSAT Score''
              (if 65 < x then Some ''2.3% vs last week'' else None)
              (if 65 < x then ''positive'' else ''negative''))"
  by (simp add: csat_card_def py_gt_def truth_def format_float_def)

text \<open>
  C9. With a CSAT rate above 65 the rendered first card carries the delta line
  "2.3% vs last week" with the class and the arrow of the "positive" framing; the text
  is a literal of the program and does not depend on the data. With a rate of 65 or
  less the card has an empty delta line.
\<close>

theorem csat_card_delta:
  \<open>(\<forall>x. csat_rate s = Some x \<and> 65 < x \<longrightarrow>
       csat_card s =
         Inr (''\<newline>    <div class="metric-card">\<newline>        <div class="metric-value">''
              @ format_f 0 x @ ''%''
              @ ''</div>\<newline>        <div class="metric-label">CSAT Score</div>\<newline>        ''
              @ ''<div class="metric-delta-positive">'' @ [CHR 0xE2, CHR 0x86, CHR 0x91]
              @ '' 2.3% vs last week</div>\<newline>    </div>\<newline>    ''))
   \<and> (\<forall>x. csat_rate s = Some x \<and> x \<le> 65 \<longrightarrow>
       csat_card s =
         Inr (''\<newline>    <div class="metric-card">\<newline>        <div class="metric-value">''
              @ format_f 0 x @ ''%''
              @ ''</div>\<newline>        <div class="metric-label">CSAT Score</div>\<newline>        ''
              @ ''\<newline>    </div>\<newline>    ''))\<close>
proof (intro conjI allI impI)
  fix x assume "csat_rate s = Some x \<and> 65 < x"
  then show \<open>csat_card s =
         Inr (''\<newline>    <div class="metric-card">\<newline>        <div class="metric-value">''
              @ format_f 0 x @ ''%''
              @ ''</div>\<newline>        <div class="metric-label">CSAT Score</div>\<newline>        ''
              @ ''<div class="metric-delta-positive">'' @ [CHR 0xE2, CHR 0x86, CHR 0x91]
              @ '' 2.3% vs last week</div>\<newline>    </div>\<newline>    '')\<close>
    by (simp add: csat_card_value render_metric_card_def delta_html_def up_arrow_def)
next
  fix x assume "csat_rate s = Some x \<and> x \<le> 65"
  then show \<open>csat_card s =
         Inr (''\<newline>    <div class="metric-card">\<newline>        <div class="metric-value">''
              @ format_f 0 x @ ''%''
              @ ''</div>\<newline>        <div class="metric-label">CSAT Score</div>\<newline>        ''
              @ ''\<newline>    </div>\<newline>    '')\<close>
    by (simp add: csat_card_value render_metric_card_def delta_html_def)
qed

lemma format_f_examples: "format_f 0 (651 / 10) = ''65''" "format_f 0 65 = ''65''"
proof -
  have "\<lfloor>(651::rat) / 10\<rfloor> = 65" by (simp add: floor_eq_iff)
  then show "format_f 0 (651 / 10) = ''65''"
    by (simp add: format_f_def round_half_even_def string_of_nat.simps digit_char_def)
  show "format_f 0 65 = ''65''"
    by (simp add: format_f_def round_half_even_def string_of_nat.simps digit_char_def)
qed

theorem csat_card_delta_witness:
  \<open>csat_card (example_stats (Some (651 / 10)) 120 100) =
     Inr (''\<newline>    <div class="metric-card">\<newline>        <div class="metric-value">65%''
          @ ''</div>\<newline>        <div class="metric-label">CSAT Score</div>\<newline>        ''
          @ ''<div class="metric-delta-positive">'' @ [CHR 0xE2, CHR 0x86, CHR 0x91]
          @ '' 2.3% vs last week</div>\<newline>    </div>\<newline>    '')
   \<and> csat_card (example_stats (Some 65) 120 100) =
     Inr (''\<newline>    <div class="metric-card">\<newline>        <div class="metric-value">65%''
          @ ''</div>\<newline>        <div class="metric-label">CSAT Score</div>\<newline>        ''
          @ ''\<newline>    </div>\<newline>    '')\<close>
proof -
  have a: "csat_rate (example_stats (Some (651 / 10)) 120 100) = Some (651 / 10) \<and> (65::rat) < 651 / 10"
    and b: "csat_rate (example_stats (Some 65) 120 100) = Some 65 \<and> (65::rat) \<le> 65"
    by (simp_all add: example_stats_def)
  note t = csat_card_delta [of "example_stats (Some (651 / 10)) 120 100"]
  note u = csat_card_delta [of "example_stats (Some 65) 120 100"]
  note above = t [THEN conjunct1, rule_format, OF a, unfolded format_f_examples]
  note at = u [THEN conjunct2, rule_format, OF b, unfolded format_f_examples]
  from above at show ?thesis by simp
qed

text \<open>
  C10. When today's and yesterday's counts are equal the delta is zero, the framing is
  "positive", and the rendered card still has its delta line, "0 vs yesterday" behind
  an up arrow: the text is not empty, so the test \<open>if delta\<close> holds.
\<close>

theorem zero_delta_framed_positive:
  \<open>today_tickets s = yesterday_tickets s \<Longrightarrow>
     today_delta s = 0 \<and> delta_type s = ''positive''
     \<and> today_card s =
         ''\<newline>    <div class="metric-card">\<newline>        <div class="metric-value">''
         @ string_of_int (today_tickets s)
         @ ''</div>\<newline>        <div class="metric-label">Today'' @ [CHR 0x27] @ ''s Tickets</div>\<newline>        ''
         @ ''<div class="metric-delta-positive">'' @ [CHR 0xE2, CHR 0x86, CHR 0x91]
         @ '' 0 vs yesterday</div>\<newline>    </div>\<newline>    ''\<close>
proof -
  assume eq: "today_tickets s = yesterday_tickets s"
  then have d: "today_delta s = 0" by (simp add: today_delta_def)
  then have ty: "delta_type s = ''positive''" by (simp add: delta_type_def)
  have html: \<open>today_card s =
         ''\<newline>    <div class="metric-card">\<newline>        <div class="metric-value">''
         @ string_of_int (today_tickets s)
         @ ''</div>\<newline>        <div class="metric-label">Today'' @ [CHR 0x27] @ ''s Tickets</div>\<newline>        ''
         @ ''<div class="metric-delta-positive">'' @ [CHR 0xE2, CHR 0x86, CHR 0x91]
         @ '' 0 vs yesterday</div>\<newline>    </div>\<newline>    ''\<close>
    unfolding today_card_eq render_metric_card_def delta_html_today ty d
    by (simp add: string_of_nat_0 up_arrow_def)
  from d ty html show ?thesis by (intro conjI)
qed

theorem zero_delta_framed_positive_witness:
  \<open>today_tickets (example_stats (Some 70) 100 100) = yesterday_tickets (example_stats (Some 70) 100 100)
   \<and> delta_type (example_stats (Some 70) 100 100) = ''positive''
   \<and> today_card (example_stats (Some 70) 100 100) =
       ''\<newline>    <div class="metric-card">\<newline>        <div class="metric-value">100''
       @ ''</div>\<newline>        <div class="metric-label">Today'' @ [CHR 0x27] @ ''s Tickets</div>\<newline>        ''
       @ ''<div class="metric-delta-positive">'' @ [CHR 0xE2, CHR 0x86, CHR 0x91]
       @ '' 0 vs yesterday</div>\<newline>    </div>\<newline>    ''\<close>
proof -
  have h: "today_tickets (example_stats (Some 70) 100 100) = yesterday_tickets (example_stats (Some 70) 100 100)"
    by (simp add: example_stats_def)
  have t: "today_tickets (example_stats (Some 70) 100 100) = 100"
    by (simp add: example_stats_def)
  note z = zero_delta_framed_positive [OF h, unfolded t string_of_int_examples]
  from z h show ?thesis by simp
qed

section \<open>Properties of the render pass\<close>

lemma header_not_card: "render_metric_card v l dl ty \<noteq> header_html"
  by (simp add: header_html_def render_metric_card_def)

lemma main_loaded:
  "main now (Inr s) (Inr daily_df) (Inr agent_df) (Inr tag_df) (Inr heatmap_df) =
     (St_markdown header_html # fst (dashboard now s daily_df agent_df tag_df heatmap_df),
      snd (dashboard now s daily_df agent_df tag_df heatmap_df))"
  by (simp add: main_def split: prod.splits)

lemma main_failed:
  "isl s \<or> isl d \<or> isl a \<or> isl t \<or> isl h \<Longrightarrow>
     main now s d a t h =
       ([St_markdown header_html,
         St_error (''Error loading data: '' @
           (if isl s then projl s else if isl d then projl d else if isl a then projl a
            else if isl t then projl t else projl h))], None)"
  by (cases s; cases d; cases a; cases t; cases h) (simp_all add: main_def load_error_def)

text \<open>
  C6. When one of the five loaders raises, the pass emits the page header, which
  precedes the loads, and then one error message carrying the text of the first
  exception; nothing follows it and no exception leaves \<open>main\<close>. The output holds
  exactly one error message, no chart and no KPI card.
\<close>

theorem load_failure_aborts_render:
  assumes "isl s \<or> isl d \<or> isl a \<or> isl t \<or> isl h"
  shows "main now s d a t h =
       ([St_markdown header_html,
         St_error (''Error loading data: '' @
           (if isl s then projl s else if isl d then projl d else if isl a then projl a
            else if isl t then projl t else projl h))], None)
     \<and> length (filter is_error (fst (main now s d a t h))) = 1
     \<and> filter is_chart (fst (main now s d a t h)) = []
     \<and> (\<forall>v l dl ty. St_markdown (render_metric_card v l dl ty) \<notin> set (fst (main now s d a t h)))"
  unfolding main_failed [OF assms] by (simp add: header_not_card)

theorem load_failure_aborts_render_witness:
  "main ''2026-01-01 00:00:00'' (Inr (example_stats (Some 70) 120 100)) (Inl ''timeout'') (Inr [])
     (Inl ''denied'') (Inr []) =
     ([St_markdown header_html, St_error ''Error loading data: timeout''], None)
   \<and> length (filter is_error (fst (main ''2026-01-01 00:00:00''
        (Inr (example_stats (Some 70) 120 100)) (Inl ''timeout'') (Inr []) (Inl ''denied'') (Inr [])))) = 1
   \<and> filter is_chart (fst (main ''2026-01-01 00:00:00''
        (Inr (example_stats (Some 70) 120 100)) (Inl ''timeout'') (Inr []) (Inl ''denied'') (Inr []))) = []"
proof -
  have h: "isl (Inr (example_stats (Some 70) 120 100) :: string + stats)
      \<or> isl (Inl ''timeout'' :: string + daily_metric_row list)
      \<or> isl (Inr [] :: string + agent_row list)
      \<or> isl (Inl ''denied'' :: string + tag_row list)
      \<or> isl (Inr [] :: string + heatmap_row list)"
    by simp
  from load_failure_aborts_render [OF h, of "''2026-01-01 00:00:00''"] show ?thesis
    by simp
qed

lemma kpi_cards_value:
  "csat_rate s = Some x \<Longrightarrow>
     kpi_cards s =
       Inr [St_markdown (render_metric_card (format_f 0 x @ ''%'') ''CSAT Score''
                           (if 65 < x then Some ''2.3% vs last week'' else None)
                           (if 65 < x then ''positive'' else ''negative'')),
            St_markdown (backlog_card s), St_markdown (resolution_card s),
            St_markdown (same_day_card s), St_markdown (today_card s)]"
  by (simp add: kpi_cards_def csat_card_value)

lemma kpi_cards_null: "csat_rate s = None \<Longrightarrow> kpi_cards s = Inl TypeError"
  by (simp add: kpi_cards_def csat_card_null)

text \<open>A NULL \<open>csat_rate\<close> ends the pass at the first card, after the page header.\<close>

lemma main_null_csat_rate:
  "csat_rate s = None \<Longrightarrow>
     main now (Inr s) (Inr daily_df) (Inr agent_df) (Inr tag_df) (Inr heatmap_df) =
       ([St_markdown header_html], Some TypeError)"
  by (simp add: main_loaded dashboard_def kpi_cards_null)

lemmas chart_parts =
  volume_trend_chart_def csat_trend_chart_def heatmap_chart_def categories_chart_def Let_def

lemma dashboard_raised:
  "csat_rate s = Some x \<Longrightarrow> snd (dashboard now s daily_df agent_df tag_df heatmap_df) = None"
  by (simp add: dashboard_def kpi_cards_value)

lemma dashboard_widgets:
  \<open>csat_rate s = Some x \<Longrightarrow>
     fst (dashboard now s daily_df agent_df tag_df heatmap_df) =
       [St_markdown (render_metric_card (format_f 0 x @ ''%'') ''CSAT Score''
                           (if 65 < x then Some ''2.3% vs last week'' else None)
                           (if 65 < x then ''positive'' else ''negative'')),
        St_markdown (backlog_card s), St_markdown (resolution_card s),
        St_markdown (same_day_card s), St_markdown (today_card s), St_markdown ''<br>'']
       @ volume_trend_chart daily_df @ csat_trend_chart daily_df
       @ heatmap_chart heatmap_df @ categories_chart tag_df
       @ [St_markdown agent_header] @ agent_charts agent_df
       @ [St_markdown (footer_html now)]\<close>
  by (simp add: dashboard_def kpi_cards_value)

lemma dashboard_charts:
  "csat_rate s = Some x \<Longrightarrow>
     4 \<le> length (filter is_chart (fst (dashboard now s daily_df agent_df tag_df heatmap_df)))"
  by (simp add: dashboard_widgets chart_parts)

lemma nlargest_Nil_iff: "nlargest n column df = [] \<longleftrightarrow> n = 0 \<or> df = []"
proof -
  have "length (nlargest n column df) = 0 \<longleftrightarrow> n = 0 \<or> length df = 0"
    unfolding nlargest_length by (cases df) (auto simp: min_def)
  then show ?thesis by simp
qed

lemma top_agents_Nil_iff: "top_agents df = [] \<longleftrightarrow> current_month df = []"
  by (simp add: top_agents_def nlargest_Nil_iff)

lemma top_csat_Nil_iff:
  "top_csat df = [] \<longleftrightarrow> (\<forall>r \<in> set (current_month df). tickets_handled r < 10)"
  by (simp add: top_csat_def nlargest_Nil_iff filter_empty_conv not_le)

lemma agent_charts_no_month: "current_month df = [] \<Longrightarrow> agent_charts df = []"
  by (simp add: agent_charts_def)

lemma agent_charts_no_eligible:
  "current_month df \<noteq> [] \<Longrightarrow> \<forall>r \<in> set (current_month df). tickets_handled r < 10 \<Longrightarrow>
     agent_charts df =
       [St_plotly_chart (Top_agents (map agent_name (top_agents df)) (map tickets_handled (top_agents df)))]"
  by (simp add: agent_charts_def top_csat_Nil_iff)

lemma dashboard_agent_charts:
  "csat_rate s = Some x \<Longrightarrow>
     filter (\<lambda>w. is_top_agents w \<or> is_top_csat w)
       (fst (dashboard now s daily_df agent_df tag_df heatmap_df)) = agent_charts agent_df"
  by (simp add: dashboard_widgets chart_parts agent_header_def agent_charts_def)

lemma dashboard_no_error:
  "csat_rate s = Some x \<Longrightarrow>
     filter is_error (fst (dashboard now s daily_df agent_df tag_df heatmap_df)) = []"
  by (simp add: dashboard_widgets chart_parts agent_header_def agent_charts_def)

lemma dashboard_categories:
  "csat_rate s = Some x \<Longrightarrow>
     filter is_top_categories (fst (dashboard now s daily_df agent_df tag_df heatmap_df)) =
       [St_plotly_chart (Top_categories (map tag_total_tickets (take 8 tag_df)) (map tag (take 8 tag_df)))]"
  by (simp add: dashboard_widgets chart_parts agent_header_def agent_charts_def)

lemma dashboard_agent_header:
  "csat_rate s = Some x \<Longrightarrow>
     St_markdown agent_header \<in> set (fst (dashboard now s daily_df agent_df tag_df heatmap_df))"
  by (simp add: dashboard_widgets)

lemma dashboard_last:
  "csat_rate s = Some x \<Longrightarrow>
     last (fst (dashboard now s daily_df agent_df tag_df heatmap_df)) = St_markdown (footer_html now)"
  by (simp add: dashboard_widgets)

text \<open>
  C7, as amended. With all five tables loaded and a \<open>csat_rate\<close> that is not NULL, the
  pass raises no exception, whatever tables are empty: it runs to the footer and emits
  no error message. The header of the agent section is always part of the output.
  When the table has no row of the latest month, neither agent chart is rendered.
  When there are such rows but none with ten tickets or more, the tickets leaderboard
  is rendered and the CSAT chart is not. An empty tag table gives a category chart
  without bars.
\<close>

theorem empty_results_skip_charts:
  assumes "csat_rate s = Some x"
  shows "snd (main now (Inr s) (Inr daily_df) (Inr agent_df) (Inr tag_df) (Inr heatmap_df)) = None
   \<and> last (fst (main now (Inr s) (Inr daily_df) (Inr agent_df) (Inr tag_df) (Inr heatmap_df))) =
       St_markdown (footer_html now)
   \<and> filter is_error
       (fst (main now (Inr s) (Inr daily_df) (Inr agent_df) (Inr tag_df) (Inr heatmap_df))) = []
   \<and> St_markdown agent_header
       \<in> set (fst (main now (Inr s) (Inr daily_df) (Inr agent_df) (Inr tag_df) (Inr heatmap_df)))
   \<and> (current_month agent_df = [] \<longrightarrow>
        filter (\<lambda>w. is_top_agents w \<or> is_top_csat w)
          (fst (main now (Inr s) (Inr daily_df) (Inr agent_df) (Inr tag_df) (Inr heatmap_df))) = [])
   \<and> (current_month agent_df \<noteq> [] \<and> (\<forall>r \<in> set (current_month agent_df). tickets_handled r < 10) \<longrightarrow>
        filter (\<lambda>w. is_top_agents w \<or> is_top_csat w)
          (fst (main now (Inr s) (Inr daily_df) (Inr agent_df) (Inr tag_df) (Inr heatmap_df))) =
        [St_plotly_chart
           (Top_agents (map agent_name (top_agents agent_df))
              (map tickets_handled (top_agents agent_df)))])
   \<and> (tag_df = [] \<longrightarrow>
        filter is_top_categories
          (fst (main now (Inr s) (Inr daily_df) (Inr agent_df) (Inr tag_df) (Inr heatmap_df))) =
        [St_plotly_chart (Top_categories [] [])])"
proof -
  let ?d = "fst (dashboard now s daily_df agent_df tag_df heatmap_df)"
  have ne: "?d \<noteq> []"
    by (simp add: dashboard_widgets [OF assms])
  have fin: "last (St_markdown header_html # ?d) = St_markdown (footer_html now)"
    using ne dashboard_last [OF assms, of now daily_df agent_df tag_df heatmap_df] by simp
  show ?thesis
    unfolding main_loaded fst_conv snd_conv
    using fin
    by (simp add: dashboard_raised [OF assms] dashboard_agent_charts [OF assms]
        dashboard_no_error [OF assms] dashboard_categories [OF assms]
        dashboard_agent_header [OF assms] agent_charts_no_month agent_charts_no_eligible)
qed

lemma quiet_month_facts:
  "current_month quiet_month \<noteq> []"
  "\<forall>r \<in> set (current_month quiet_month). tickets_handled r < 10"
  "map agent_name (top_agents quiet_month) = [''Ann'', ''Bob'']"
  "map tickets_handled (top_agents quiet_month) = [9, 3]"
  by (simp_all add: top_agents_def nlargest_def current_month_def max_created_month_def
      quiet_month_def agent_def)

theorem empty_results_skip_charts_witness:
  "snd (main ''2026-01-01 00:00:00'' (Inr (example_stats (Some 70) 120 100))
          (Inr example_daily) (Inr []) (Inr []) (Inr example_heatmap)) = None
   \<and> filter (\<lambda>w. is_top_agents w \<or> is_top_csat w)
       (fst (main ''2026-01-01 00:00:00'' (Inr (example_stats (Some 70) 120 100))
          (Inr example_daily) (Inr []) (Inr []) (Inr example_heatmap))) = []
   \<and> filter is_top_categories
       (fst (main ''2026-01-01 00:00:00'' (Inr (example_stats (Some 70) 120 100))
          (Inr example_daily) (Inr []) (Inr []) (Inr example_heatmap))) = [St_plotly_chart (Top_categories [] [])]
   \<and> filter is_error
       (fst (main ''2026-01-01 00:00:00'' (Inr (example_stats (Some 70) 120 100))
          (Inr example_daily) (Inr []) (Inr []) (Inr example_heatmap))) = []
   \<and> snd (main ''2026-01-01 00:00:00'' (Inr (example_stats (Some 70) 120 100))
          (Inr example_daily) (Inr quiet_month) (Inr []) (Inr example_heatmap)) = None
   \<and> filter (\<lambda>w. is_top_agents w \<or> is_top_csat w)
       (fst (main ''2026-01-01 00:00:00'' (Inr (example_stats (Some 70) 120 100))
          (Inr example_daily) (Inr quiet_month) (Inr []) (Inr example_heatmap))) =
       [St_plotly_chart (Top_agents [''Ann'', ''Bob''] [9, 3])]"
proof -
  have c: "csat_rate (example_stats (Some 70) 120 100) = Some 70"
    by (simp add: example_stats_def)
  have e: "current_month [] = []" by (simp add: current_month_def)
  note empty = empty_results_skip_charts [OF c, of "''2026-01-01 00:00:00''" example_daily "[]" "[]"
      example_heatmap]
  note quiet = empty_results_skip_charts [OF c, of "''2026-01-01 00:00:00''" example_daily quiet_month
      "[]" example_heatmap]
  note c2 = conjunct2
  note completes = empty [THEN conjunct1]
  note no_error = empty [THEN c2, THEN c2, THEN conjunct1]
  note no_charts = empty [THEN c2, THEN c2, THEN c2, THEN c2, THEN conjunct1, rule_format, OF e]
  note categories = empty [THEN c2, THEN c2, THEN c2, THEN c2, THEN c2, THEN c2, rule_format,
      OF refl]
  note completes' = quiet [THEN conjunct1]
  note only_tickets = quiet [THEN c2, THEN c2, THEN c2, THEN c2, THEN c2, THEN conjunct1,
      rule_format, OF conjI [OF quiet_month_facts(1) quiet_month_facts(2)],
      unfolded quiet_month_facts(3,4)]
  from completes no_charts categories no_error completes' only_tickets show ?thesis
    by (intro conjI)
qed

text \<open>
  C7 as stated has the whole agent section skipped: with an empty agent table the
  output still ends with the header of the section, then the footer.
\<close>

theorem agent_header_without_rows:
  "current_month [] = []
   \<and> snd (main ''2026-01-01 00:00:00'' (Inr (example_stats (Some 70) 120 100))
        (Inr example_daily) (Inr []) (Inr []) (Inr example_heatmap)) = None
   \<and> drop 15 (fst (main ''2026-01-01 00:00:00'' (Inr (example_stats (Some 70) 120 100))
        (Inr example_daily) (Inr []) (Inr []) (Inr example_heatmap))) =
     [St_markdown (section_header [CHR 0xF0, CHR 0x9F, CHR 0x91, CHR 0xA5] ''Agent Performance''),
      St_markdown (footer_html ''2026-01-01 00:00:00'')]"
proof -
  have c: "csat_rate (example_stats (Some 70) 120 100) = Some 70"
    by (simp add: example_stats_def)
  show ?thesis
    unfolding main_loaded fst_conv snd_conv dashboard_raised [OF c] dashboard_widgets [OF c]
    by (simp add: current_month_def chart_parts agent_header_def agent_charts_def)
qed

end
